theory Spec2Isabelle
  imports Main "HOL-Library.Sublist" "HOL-Library.Char_ord"
begin

section \<open>Errors\<close>

text \<open>
  Go errors are values.  Every \<^verbatim>\<open>fmt.Errorf\<close> of the two command files is one
  constructor that keeps the arguments of the format string (the offending tag, the
  reference, the wrapped error of \<^verbatim>\<open>%w\<close>) instead of the rendered text.
  \<open>External\<close> is an error produced by a collaborator (store, engine, handler, file
  system); \<open>NilFuncCall\<close> is the run-time panic of calling a nil function value.
\<close>

datatype error =
    External string
  | NilFuncCall
  | EmptyReference
  | DigestReferenceNotSupported string
  | InvalidRepository string error
  | InvalidTag string string
  | CreateTempDirFailed error
  | UnsupportedOutputFormat
  | CreateOCIStoreFailed error
  | GetTagsFailed error
  | NoTagsFound string string string
  | CopyRefFailed string error
  | ResolveFailed string error
  | PrepareOptionsFailed string error
  | CopyTagFailed string error
  | GetReferrersFailed string error
  | CreateTempTarFailed error
  | TarArchiveFailed string error
  | CloseTempTarFailed error
  | AbsPathFailed string error
  | MkdirOutputFailed string error
  | StatOutputFailed string error

section \<open>Strings\<close>

text \<open>
  A Go string is a sequence of bytes, here a \<^typ>\<open>string\<close>.  The library functions
  used by \<^verbatim>\<open>parseArtifactsToBackup\<close> follow the Go standard library.
\<close>

text \<open>\<^verbatim>\<open>strings.LastIndexByte\<close>: index of the last occurrence, or \<open>-1\<close>.\<close>

fun LastIndexByte :: "string \<Rightarrow> char \<Rightarrow> int" where
  "LastIndexByte [] c = -1"
| "LastIndexByte (x # xs) c =
     (let r = LastIndexByte xs c
      in if r \<noteq> -1 then r + 1 else if x = c then 0 else -1)"

text \<open>\<^verbatim>\<open>strings.Split\<close> on a one-byte separator: \<open>n\<close> separators give \<open>n + 1\<close> pieces.\<close>

fun Split :: "string \<Rightarrow> char \<Rightarrow> string list" where
  "Split [] sep = [[]]"
| "Split (c # cs) sep =
     (if c = sep then [] # Split cs sep
      else (case Split cs sep of [] \<Rightarrow> [[c]] | p # ps \<Rightarrow> (c # p) # ps))"

text \<open>
  \<^verbatim>\<open>strings.TrimSpace\<close> removes leading and trailing white space "as defined by
  Unicode".  \<open>unicodeSpaces\<close> lists the UTF-8 encodings of the code points of
  \<^verbatim>\<open>unicode.IsSpace\<close>: the six ASCII ones, U+0085, U+00A0, U+1680, U+2000..U+200A,
  U+2028, U+2029, U+202F, U+205F and U+3000.
\<close>

definition unicodeSpaces :: "string list" where
  "unicodeSpaces =
     [[CHR 0x09], [CHR 0x0A], [CHR 0x0B], [CHR 0x0C], [CHR 0x0D], [CHR 0x20],
      [CHR 0xC2, CHR 0x85], [CHR 0xC2, CHR 0xA0],
      [CHR 0xE1, CHR 0x9A, CHR 0x80],
      [CHR 0xE2, CHR 0x80, CHR 0x80], [CHR 0xE2, CHR 0x80, CHR 0x81],
      [CHR 0xE2, CHR 0x80, CHR 0x82], [CHR 0xE2, CHR 0x80, CHR 0x83],
      [CHR 0xE2, CHR 0x80, CHR 0x84], [CHR 0xE2, CHR 0x80, CHR 0x85],
      [CHR 0xE2, CHR 0x80, CHR 0x86], [CHR 0xE2, CHR 0x80, CHR 0x87],
      [CHR 0xE2, CHR 0x80, CHR 0x88], [CHR 0xE2, CHR 0x80, CHR 0x89],
      [CHR 0xE2, CHR 0x80, CHR 0x8A],
      [CHR 0xE2, CHR 0x80, CHR 0xA8], [CHR 0xE2, CHR 0x80, CHR 0xA9],
      [CHR 0xE2, CHR 0x80, CHR 0xAF],
      [CHR 0xE2, CHR 0x81, CHR 0x9F],
      [CHR 0xE3, CHR 0x80, CHR 0x80]]"

text \<open>Width in bytes of the white-space code point a string starts with (0: none).\<close>

definition leadingSpace :: "string \<Rightarrow> nat" where
  "leadingSpace s =
     (case filter (\<lambda>w. prefix w s) unicodeSpaces of [] \<Rightarrow> 0 | w # _ \<Rightarrow> length w)"

text \<open>Width in bytes of the white-space code point a string ends with (0: none).\<close>

definition trailingSpace :: "string \<Rightarrow> nat" where
  "trailingSpace s =
     (case filter (\<lambda>w. suffix w s) unicodeSpaces of [] \<Rightarrow> 0 | w # _ \<Rightarrow> length w)"

function TrimLeftSpace :: "string \<Rightarrow> string" where
  "TrimLeftSpace s =
     (if leadingSpace s = 0 then s else TrimLeftSpace (drop (leadingSpace s) s))"
  by pat_completeness auto
termination
proof (relation "measure length")
  show "wf (measure length)" by simp
next
  fix s :: string
  assume "leadingSpace s \<noteq> 0"
  moreover have "leadingSpace s \<le> length s"
  proof (cases "filter (\<lambda>w. prefix w s) unicodeSpaces")
    case Nil
    then show ?thesis by (simp add: leadingSpace_def)
  next
    case (Cons w ws)
    then have "w \<in> set (filter (\<lambda>w. prefix w s) unicodeSpaces)" by simp
    then have "prefix w s" by simp
    then have "length w \<le> length s" by (rule prefix_length_le)
    with Cons show ?thesis by (simp add: leadingSpace_def)
  qed
  ultimately show "(drop (leadingSpace s) s, s) \<in> measure length" by simp
qed

function TrimRightSpace :: "string \<Rightarrow> string" where
  "TrimRightSpace s =
     (if trailingSpace s = 0 then s
      else TrimRightSpace (take (length s - trailingSpace s) s))"
  by pat_completeness auto
termination
proof (relation "measure length")
  show "wf (measure length)" by simp
next
  fix s :: string
  assume "trailingSpace s \<noteq> 0"
  moreover have "trailingSpace s \<le> length s"
  proof (cases "filter (\<lambda>w. suffix w s) unicodeSpaces")
    case Nil
    then show ?thesis by (simp add: trailingSpace_def)
  next
    case (Cons w ws)
    then have "w \<in> set (filter (\<lambda>w. suffix w s) unicodeSpaces)" by simp
    then have "suffix w s" by simp
    then have "length w \<le> length s" by (rule suffix_length_le)
    with Cons show ?thesis by (simp add: trailingSpace_def)
  qed
  ultimately show "(take (length s - trailingSpace s) s, s) \<in> measure length" by simp
qed

declare TrimLeftSpace.simps [simp del] TrimRightSpace.simps [simp del]

definition TrimSpace :: "string \<Rightarrow> string" where
  "TrimSpace s = TrimRightSpace (TrimLeftSpace s)"

section \<open>The tag grammar\<close>

text \<open>
  A small regular-expression matcher for the constructs of
  \<^verbatim>\<open>^[\w][\w.-]{0,127}$\<close>: a character class, concatenation and bounded repetition
  \<open>r{0,n}\<close>.  \<open>rmatch r s\<close> lists the rests of \<open>s\<close> after each way \<open>r\<close> can match a
  prefix of \<open>s\<close>.
\<close>

datatype regex =
    CharClass "char \<Rightarrow> bool"
  | Concat regex regex
  | Repeat regex nat

fun rsize :: "regex \<Rightarrow> nat" where
  "rsize (CharClass p) = 1"
| "rsize (Concat a b) = rsize a + rsize b + 1"
| "rsize (Repeat a n) = rsize a + n + 1"

function rmatch :: "regex \<Rightarrow> string \<Rightarrow> string list" where
  "rmatch (CharClass p) s = (case s of [] \<Rightarrow> [] | c # cs \<Rightarrow> if p c then [cs] else [])"
| "rmatch (Concat a b) s = concat (map (rmatch b) (rmatch a s))"
| "rmatch (Repeat a 0) s = [s]"
| "rmatch (Repeat a (Suc n)) s = s # concat (map (rmatch (Repeat a n)) (rmatch a s))"
  by pat_completeness auto
termination
  by (relation "measure (\<lambda>(r, s). rsize r)") auto

text \<open>
  \<^verbatim>\<open>\w\<close> is \<^verbatim>\<open>[0-9A-Za-z_]\<close> in Go (ASCII only).  Go matches code points, the model
  bytes: a byte of a multi-byte code point is in neither class, so both reject every string
  that is not pure ASCII and agree on the others.
\<close>

definition isWord :: "char \<Rightarrow> bool" where
  "isWord c \<longleftrightarrow>
     (CHR ''0'' \<le> c \<and> c \<le> CHR ''9'') \<or> (CHR ''A'' \<le> c \<and> c \<le> CHR ''Z'') \<or>
     (CHR ''a'' \<le> c \<and> c \<le> CHR ''z'') \<or> c = CHR ''_''"

definition isWordDotDash :: "char \<Rightarrow> bool" where
  "isWordDotDash c \<longleftrightarrow> isWord c \<or> c = CHR ''.'' \<or> c = CHR ''-''"

definition tagRegexp :: regex where
  "tagRegexp = Concat (CharClass isWord) (Repeat (CharClass isWordDotDash) 127)"

text \<open>
  \<^verbatim>\<open>tagRegexp.MatchString\<close>: with \<^verbatim>\<open>^\<close> and \<^verbatim>\<open>$\<close> (no multi-line flag) a match
  starts at the beginning of the text and ends at its end.
\<close>

definition MatchString :: "regex \<Rightarrow> string \<Rightarrow> bool" where
  "MatchString r s \<longleftrightarrow> [] \<in> set (rmatch r s)"

section \<open>Parsing the backup reference\<close>

text \<open>
  \<^verbatim>\<open>registry.ParseReference\<close> and \<^verbatim>\<open>Reference.String\<close> belong to the registry
  library; the parser takes them as parameters.
\<close>

record reference =
  Registry :: string
  Repository :: string
  Reference :: string

record registry_pkg =
  ParseReference :: "string \<Rightarrow> error + reference"
  ReferenceString :: "reference \<Rightarrow> string"

text \<open>
  Step 1 of \<^verbatim>\<open>parseArtifactsToBackup\<close>: a colon after the last slash starts the
  tags; \<open>s[:i]\<close> is \<open>take i s\<close> and \<open>s[i+1:]\<close> is \<open>drop (i + 1) s\<close>.
\<close>

definition splitRepoTags :: "string \<Rightarrow> string \<times> string" where
  "splitRepoTags artifactRefs =
     (let lastSlash = LastIndexByte artifactRefs CHR ''/'';
          lastColon = LastIndexByte artifactRefs CHR '':''
      in if lastColon \<noteq> -1 \<and> lastColon > lastSlash
         then (take (nat lastColon) artifactRefs, drop (nat (lastColon + 1)) artifactRefs)
         else (artifactRefs, []))"

text \<open>
  The loop over \<^verbatim>\<open>tagList\<close>: trim, skip the empty segment, stop at the first one
  that does not match, append the others to \<^verbatim>\<open>tags\<close>.
\<close>

fun validateTags :: "string \<Rightarrow> string list \<Rightarrow> string list \<Rightarrow> error + string list" where
  "validateTags artifactRefs [] tags = Inr tags"
| "validateTags artifactRefs (seg # tagList) tags =
     (let tag = TrimSpace seg
      in if tag = [] then validateTags artifactRefs tagList tags
         else if \<not> MatchString tagRegexp tag then Inl (InvalidTag tag artifactRefs)
         else validateTags artifactRefs tagList (tags @ [tag]))"

text \<open>
  The result \<open>(repository, tags, err)\<close> of the source is \<open>Inl err\<close> or
  \<open>Inr (repository, tags)\<close>; a nil slice and an empty one are both \<open>[]\<close> (the
  callers only take its length).
\<close>

definition parseArtifactsToBackup :: "registry_pkg \<Rightarrow> string \<Rightarrow> error + string \<times> string list" where
  "parseArtifactsToBackup pkg artifactRefs =
     (if artifactRefs = [] then Inl EmptyReference
      else if CHR ''@'' \<in> set artifactRefs then Inl (DigestReferenceNotSupported artifactRefs)
      else
        (case splitRepoTags artifactRefs of
           (repoParts, tagsPart) \<Rightarrow>
             (case ParseReference pkg repoParts of
                Inl err \<Rightarrow> Inl (InvalidRepository repoParts err)
              | Inr parsedRepo \<Rightarrow>
                  let repository = ReferenceString pkg parsedRepo
                  in if tagsPart = [] then Inr (repository, [])
                     else (case validateTags artifactRefs (Split tagsPart CHR '','') [] of
                             Inl err \<Rightarrow> Inl err
                           | Inr tags \<Rightarrow> Inr (repository, tags)))))"

text \<open>
  \<^verbatim>\<open>findTagsToBackup\<close>; \<open>registryTags\<close> is the outcome of
  \<^verbatim>\<open>registry.Tags(ctx, repo)\<close>, the listing of the remote repository.
\<close>

definition findTagsToBackup :: "(error + string list) \<Rightarrow> string list \<Rightarrow> error + string list" where
  "findTagsToBackup registryTags tags =
     (if length tags > 0 then Inr tags else registryTags)"

section \<open>Descriptors and copy options\<close>

text \<open>
  \<^verbatim>\<open>ocispec.Descriptor\<close>.  A \<^verbatim>\<open>digest.Digest\<close> is a string and its
  \<^verbatim>\<open>String()\<close> is that string.  \<^verbatim>\<open>content.Equal\<close> compares size, digest and
  media type and nothing else.
\<close>

record descriptor =
  MediaType :: string
  Digest :: string
  Size :: int
  ArtifactType :: string
  Annotations :: "(string \<times> string) list"

definition zeroDescriptor :: descriptor where
  "zeroDescriptor =
     \<lparr>MediaType = [], Digest = [], Size = 0, ArtifactType = [], Annotations = []\<rparr>"

definition content_Equal :: "descriptor \<Rightarrow> descriptor \<Rightarrow> bool" where
  "content_Equal a b \<longleftrightarrow> Size a = Size b \<and> Digest a = Digest b \<and> MediaType a = MediaType b"

definition MediaTypeImageIndex :: string where
  "MediaTypeImageIndex = ''application/vnd.oci.image.index.v1+json''"

text \<open>
  Modelled from the spec: the constant \<^verbatim>\<open>docker.MediaTypeManifestList\<close> of the
  package \<^verbatim>\<open>internal/docker\<close>, the media type of a Docker manifest list, the second
  Index variant.
\<close>

definition MediaTypeManifestList :: string where
  "MediaTypeManifestList = ''application/vnd.docker.distribution.manifest.list.v2+json''"

record index =
  Manifests :: "descriptor list"

text \<open>
  The callbacks handed to the engine are methods of the status handler; a nil function
  value is \<open>None\<close>.
\<close>

datatype hook = HandlerPreCopy | HandlerPostCopy | HandlerOnCopySkipped | HandlerOnMounted

record oras_CopyGraphOptions =
  Concurrency :: int
  PreCopy :: "hook option"
  PostCopy :: "hook option"
  OnCopySkipped :: "hook option"
  OnMounted :: "hook option"
  MountFrom :: "(descriptor \<Rightarrow> error + string list) option"

record oras_CopyOptions =
  CopyOptions_CopyGraphOptions :: oras_CopyGraphOptions
  TargetPlatform :: "string option"

record oras_ExtendedCopyGraphOptions =
  CopyGraphOptions :: oras_CopyGraphOptions
  Depth :: int
  FindPredecessors :: "(descriptor \<Rightarrow> error + descriptor list) option"

record oras_ExtendedCopyOptions =
  ExtendedCopyGraphOptions :: oras_ExtendedCopyGraphOptions

text \<open>The library's defaults are the zero values: no callback, no mount hint.\<close>

definition DefaultCopyGraphOptions :: oras_CopyGraphOptions where
  "DefaultCopyGraphOptions =
     \<lparr>Concurrency = 0, PreCopy = None, PostCopy = None, OnCopySkipped = None,
      OnMounted = None, MountFrom = None\<rparr>"

definition DefaultExtendedCopyOptions :: oras_ExtendedCopyOptions where
  "DefaultExtendedCopyOptions =
     \<lparr>ExtendedCopyGraphOptions =
        \<lparr>CopyGraphOptions = DefaultCopyGraphOptions, Depth = 0, FindPredecessors = None\<rparr>\<rparr>"

section \<open>The collaborators\<close>

text \<open>
  The stores and the replication engine are outside the two command files.  An
  \<open>engine\<close> gives the outcome of each of their operations for the source and
  destination of one command: \<^verbatim>\<open>oras.Resolve\<close> (reference and target platform),
  \<^verbatim>\<open>content.FetchAll\<close>, \<^verbatim>\<open>json.Unmarshal\<close> into an index,
  \<^verbatim>\<open>graph.FindPredecessors\<close> (package \<^verbatim>\<open>internal/graph\<close>),
  \<^verbatim>\<open>registry.Referrers\<close> on the source and on the destination, and the four copy
  entry points.  \<^verbatim>\<open>oras.Copy\<close> returns a descriptor and an error, and
  \<^verbatim>\<open>doCopy\<close> passes both on.
\<close>

record engine =
  Resolve :: "string \<Rightarrow> string option \<Rightarrow> error + descriptor"
  FetchAll :: "descriptor \<Rightarrow> error + string"
  UnmarshalIndex :: "string \<Rightarrow> error + index"
  GraphFindPredecessors :: "descriptor list \<Rightarrow> oras_ExtendedCopyOptions \<Rightarrow> error + descriptor list"
  SrcReferrers :: "descriptor \<Rightarrow> error + descriptor list"
  DstReferrers :: "descriptor \<Rightarrow> error + descriptor list"
  Copy :: "string \<Rightarrow> string \<Rightarrow> oras_CopyOptions \<Rightarrow> descriptor \<times> error option"
  CopyGraph :: "descriptor \<Rightarrow> oras_CopyGraphOptions \<Rightarrow> error option"
  ExtendedCopy :: "string \<Rightarrow> string \<Rightarrow> oras_ExtendedCopyOptions \<Rightarrow> error option"
  ExtendedCopyGraph :: "descriptor \<Rightarrow> oras_ExtendedCopyGraphOptions \<Rightarrow> error option"

text \<open>The copy requests a command sends to the engine, in order.\<close>

datatype engine_call =
    CallCopy string string oras_CopyOptions
  | CallCopyGraph descriptor oras_CopyGraphOptions
  | CallExtendedCopy string string oras_ExtendedCopyOptions
  | CallExtendedCopyGraph descriptor oras_ExtendedCopyGraphOptions

fun callGraphOptions :: "engine_call \<Rightarrow> oras_CopyGraphOptions" where
  "callGraphOptions (CallCopy srcRef dstRef opts) = CopyOptions_CopyGraphOptions opts"
| "callGraphOptions (CallCopyGraph root opts) = opts"
| "callGraphOptions (CallExtendedCopy srcRef dstRef opts) =
     CopyGraphOptions (ExtendedCopyGraphOptions opts)"
| "callGraphOptions (CallExtendedCopyGraph root opts) = CopyGraphOptions opts"

text \<open>
  The status handler's tracking scope: the errors of \<^verbatim>\<open>StartTracking\<close> and
  \<^verbatim>\<open>StopTracking\<close>.
\<close>

record tracker =
  StartTracking :: "error option"
  StopTracking :: "error option"

section \<open>The copy command\<close>

text \<open>\<^verbatim>\<open>slices.DeleteFunc\<close>: the elements for which \<open>del\<close> is false, in order.\<close>

definition DeleteFunc :: "'a list \<Rightarrow> ('a \<Rightarrow> bool) \<Rightarrow> 'a list" where
  "DeleteFunc s del = filter (\<lambda>x. \<not> del x) s"

text \<open>Calling a function value; calling nil panics.\<close>

definition callFunc :: "('a \<Rightarrow> error + 'b) option \<Rightarrow> 'a \<Rightarrow> error + 'b" where
  "callFunc f x = (case f of None \<Rightarrow> Inl NilFuncCall | Some g \<Rightarrow> g x)"

text \<open>\<^verbatim>\<open>prepareCopyOption\<close> returns the options and the error, as the source does.\<close>

definition prepareCopyOption ::
  "engine \<Rightarrow> descriptor \<Rightarrow> oras_ExtendedCopyOptions \<Rightarrow> oras_ExtendedCopyOptions \<times> error option" where
  "prepareCopyOption eng root opts =
     (if MediaType root \<noteq> MediaTypeImageIndex \<and> MediaType root \<noteq> MediaTypeManifestList
      then (opts, None)
      else
        (case FetchAll eng root of
           Inl err \<Rightarrow> (opts, Some err)
         | Inr fetched \<Rightarrow>
            (case UnmarshalIndex eng fetched of
               Inl err \<Rightarrow> (opts, Some err)
             | Inr index \<Rightarrow>
                if length (Manifests index) = 0 then (opts, None)
                else
                  (case GraphFindPredecessors eng (Manifests index) opts of
                     Inl err \<Rightarrow> (opts, Some err)
                   | Inr found \<Rightarrow>
                      let referrers = DeleteFunc found (\<lambda>desc. content_Equal desc root)
                      in if length referrers = 0 then (opts, None)
                         else
                           let findPredecessor = FindPredecessors (ExtendedCopyGraphOptions opts)
                           in (opts\<lparr>ExtendedCopyGraphOptions := (ExtendedCopyGraphOptions opts)
                                 \<lparr>FindPredecessors := Some (\<lambda>desc.
                                    (case callFunc findPredecessor desc of
                                       Inl err \<Rightarrow> Inl err
                                     | Inr descs \<Rightarrow>
                                        if content_Equal desc root then Inr (descs @ referrers)
                                        else Inr descs))\<rparr>\<rparr>,
                               None)))))"

text \<open>\<^verbatim>\<open>recursiveCopy\<close>: the error returned and the requests sent to the engine.\<close>

definition recursiveCopy ::
  "engine \<Rightarrow> string \<Rightarrow> descriptor \<Rightarrow> oras_ExtendedCopyOptions \<Rightarrow> error option \<times> engine_call list" where
  "recursiveCopy eng dstRef root opts0 =
     (case prepareCopyOption eng root opts0 of
        (opts, Some err) \<Rightarrow> (Some err, [])
      | (opts, None) \<Rightarrow>
          if dstRef = [] \<or> dstRef = Digest root
          then (ExtendedCopyGraph eng root (ExtendedCopyGraphOptions opts),
                [CallExtendedCopyGraph root (ExtendedCopyGraphOptions opts)])
          else (ExtendedCopy eng (Digest root) dstRef opts,
                [CallExtendedCopy (Digest root) dstRef opts]))"

text \<open>
  A target is a remote repository (\<^verbatim>\<open>*remote.Repository\<close>, with its reference) or any
  other store, such as an OCI image layout.
\<close>

datatype target = RemoteRepository reference | OtherTarget string

record copyOptions =
  recursive :: bool
  concurrency :: int
  From_Reference :: string
  To_Reference :: string
  Platform :: "string option"

text \<open>The options \<^verbatim>\<open>doCopy\<close> prepares before it starts tracking.\<close>

definition doCopy_options :: "engine \<Rightarrow> target \<Rightarrow> target \<Rightarrow> copyOptions \<Rightarrow> oras_ExtendedCopyOptions" where
  "doCopy_options eng src dst opts =
     (let g0 = ExtendedCopyGraphOptions DefaultExtendedCopyOptions;
          g1 = g0\<lparr>CopyGraphOptions := (CopyGraphOptions g0)\<lparr>Concurrency := concurrency opts\<rparr>\<rparr>;
          g2 = g1\<lparr>FindPredecessors := Some (\<lambda>desc. SrcReferrers eng desc)\<rparr>;
          g3 = (case (src, dst) of
                  (RemoteRepository srcRepo, RemoteRepository dstRepo) \<Rightarrow>
                     if Registry srcRepo = Registry dstRepo
                     then g2\<lparr>CopyGraphOptions := (CopyGraphOptions g2)
                            \<lparr>MountFrom := Some (\<lambda>desc. Inr [Repository srcRepo])\<rparr>\<rparr>
                     else g2
                | _ \<Rightarrow> g2)
      in \<lparr>ExtendedCopyGraphOptions = g3\<rparr>)"

text \<open>The part of \<^verbatim>\<open>doCopy\<close> that runs inside the tracking scope.\<close>

definition doCopy_tracked ::
  "engine \<Rightarrow> copyOptions \<Rightarrow> oras_ExtendedCopyOptions \<Rightarrow> (descriptor \<times> error option) \<times> engine_call list" where
  "doCopy_tracked eng opts opts0 =
     (let g0 = ExtendedCopyGraphOptions opts0;
          extendedCopyOptions = \<lparr>ExtendedCopyGraphOptions =
             g0\<lparr>CopyGraphOptions := (CopyGraphOptions g0)
                  \<lparr>OnCopySkipped := Some HandlerOnCopySkipped, PreCopy := Some HandlerPreCopy,
                   PostCopy := Some HandlerPostCopy, OnMounted := Some HandlerOnMounted\<rparr>\<rparr>\<rparr>;
          graphOptions = CopyGraphOptions (ExtendedCopyGraphOptions extendedCopyOptions)
      in if recursive opts then
           (case Resolve eng (From_Reference opts) (Platform opts) of
              Inl err \<Rightarrow> ((zeroDescriptor, Some (ResolveFailed (From_Reference opts) err)), [])
            | Inr desc \<Rightarrow>
                (case recursiveCopy eng (To_Reference opts) desc extendedCopyOptions of
                   (err, calls) \<Rightarrow> ((desc, err), calls)))
         else if To_Reference opts = [] then
           (case Resolve eng (From_Reference opts) (Platform opts) of
              Inl err \<Rightarrow> ((zeroDescriptor, Some (ResolveFailed (From_Reference opts) err)), [])
            | Inr desc \<Rightarrow>
                ((desc, CopyGraph eng desc graphOptions), [CallCopyGraph desc graphOptions]))
         else
           (let copyOptions = \<lparr>CopyOptions_CopyGraphOptions = graphOptions,
                               TargetPlatform = Platform opts\<rparr>
            in (Copy eng (From_Reference opts) (To_Reference opts) copyOptions,
                [CallCopy (From_Reference opts) (To_Reference opts) copyOptions])))"

text \<open>
  \<^verbatim>\<open>doCopy\<close>.  A failing \<^verbatim>\<open>StartTracking\<close> returns before the deferred function is
  registered; after it, every return runs the deferred function, which calls
  \<^verbatim>\<open>StopTracking\<close> and stores its error in \<^verbatim>\<open>err\<close> when \<^verbatim>\<open>err\<close> is nil.
\<close>

definition doCopy ::
  "tracker \<Rightarrow> engine \<Rightarrow> target \<Rightarrow> target \<Rightarrow> copyOptions \<Rightarrow> (descriptor \<times> error option) \<times> engine_call list" where
  "doCopy copyHandler eng src dst opts =
     (let extendedCopyOptions = doCopy_options eng src dst opts
      in case StartTracking copyHandler of
           Some err \<Rightarrow> ((zeroDescriptor, Some err), [])
         | None \<Rightarrow>
             (case doCopy_tracked eng opts extendedCopyOptions of
                ((desc, err), calls) \<Rightarrow>
                  let stopErr = StopTracking copyHandler
                  in ((desc, if err = None then stopErr else err), calls)))"

section \<open>The backup command\<close>

text \<open>\<^verbatim>\<open>outputFormat\<close> is an integer type with two named values.\<close>

datatype outputFormat = outputFormatDir | outputFormatTar | outputFormatOther

record backupOptions =
  "output" :: string
  includeReferrers :: bool
  concurrency :: int
  outputFormat :: outputFormat
  repository :: string
  tags :: "string list"

text \<open>
  \<^verbatim>\<open>backupTag\<close>: the referrer count, the error, and the requests sent to the engine.
  The descriptor \<^verbatim>\<open>oras.Copy\<close> returns is dropped.
\<close>

definition backupTag ::
  "engine \<Rightarrow> string \<Rightarrow> bool \<Rightarrow> oras_CopyOptions \<Rightarrow> oras_ExtendedCopyOptions
     \<Rightarrow> (int \<times> error option) \<times> engine_call list" where
  "backupTag eng tag inclReferrers copyOpts extCopyOpts0 =
     (if \<not> inclReferrers then
        (case snd (Copy eng tag tag copyOpts) of
           Some err \<Rightarrow> ((0, Some (CopyRefFailed tag err)), [CallCopy tag tag copyOpts])
         | None \<Rightarrow> ((0, None), [CallCopy tag tag copyOpts]))
      else
        (case Resolve eng tag None of
           Inl err \<Rightarrow> ((0, Some (ResolveFailed tag err)), [])
         | Inr desc \<Rightarrow>
            (case prepareCopyOption eng desc extCopyOpts0 of
               (extCopyOpts, Some err) \<Rightarrow> ((0, Some (PrepareOptionsFailed tag err)), [])
             | (extCopyOpts, None) \<Rightarrow>
                (case ExtendedCopy eng (Digest desc) tag extCopyOpts of
                   Some err \<Rightarrow>
                     ((0, Some (CopyTagFailed tag err)),
                      [CallExtendedCopy (Digest desc) tag extCopyOpts])
                 | None \<Rightarrow>
                    (case DstReferrers eng desc of
                       Inl err \<Rightarrow>
                         ((0, Some (GetReferrersFailed tag err)),
                          [CallExtendedCopy (Digest desc) tag extCopyOpts])
                     | Inr referrers \<Rightarrow>
                         ((int (length referrers), None),
                          [CallExtendedCopy (Digest desc) tag extCopyOpts]))))))"

text \<open>
  The function literal \<^verbatim>\<open>runBackup\<close> calls for each tag: start tracking, register
  the deferred \<^verbatim>\<open>StopTracking\<close>, back the tag up.  The deferred function stores the
  stop error in \<^verbatim>\<open>retErr\<close> when \<^verbatim>\<open>retErr\<close> is nil.
\<close>

definition backupTagStep ::
  "tracker \<Rightarrow> engine \<Rightarrow> string \<Rightarrow> bool \<Rightarrow> oras_CopyOptions \<Rightarrow> oras_ExtendedCopyOptions
     \<Rightarrow> (int \<times> error option) \<times> engine_call list" where
  "backupTagStep statusHandler eng tag inclReferrers copyOpts extendedCopyOpts =
     (case StartTracking statusHandler of
        Some err \<Rightarrow> ((0, Some err), [])
      | None \<Rightarrow>
          (case backupTag eng tag inclReferrers copyOpts extendedCopyOpts of
             ((referrerCount, retErr), calls) \<Rightarrow>
               let stopErr = StopTracking statusHandler
               in ((referrerCount, if retErr = None then stopErr else retErr), calls)))"

text \<open>
  The file-system and handler outcomes of \<^verbatim>\<open>prepareBackupOutput\<close>:
  \<^verbatim>\<open>os.Stat\<close> and \<^verbatim>\<open>os.RemoveAll\<close> of the ingest directory,
  \<^verbatim>\<open>OnTarExporting\<close>, \<^verbatim>\<open>os.CreateTemp\<close> (the path of the new file),
  \<^verbatim>\<open>orasio.TarDirectory\<close>, the close of the temporary file, \<^verbatim>\<open>filepath.IsAbs\<close>
  and \<^verbatim>\<open>filepath.Abs\<close> of the output, \<^verbatim>\<open>os.MkdirAll\<close>, \<^verbatim>\<open>os.Rename\<close>,
  \<^verbatim>\<open>os.Remove\<close>, \<^verbatim>\<open>os.Stat\<close> of the output (the size) and
  \<^verbatim>\<open>OnTarExported\<close>.
\<close>

record outputEnv =
  StatIngest :: "error option"
  RemoveAllIngest :: "error option"
  OnTarExporting :: "error option"
  CreateTemp :: "error + string"
  TarDirectory :: "error option"
  CloseTempTar :: "error option"
  IsAbs :: bool
  Abs :: "error + string"
  MkdirAll :: "error option"
  Rename :: "error option"
  Remove :: "error option"
  StatOutput :: "error + int"
  OnTarExported :: "int \<Rightarrow> error option"

text \<open>
  \<^verbatim>\<open>prepareBackupOutput\<close> on the set of paths that exist: the ingest directory
  (\<^verbatim>\<open>filepath.Join(dstRoot, "ingest")\<close>, for a clean \<open>dstRoot\<close>) goes when it is found
  and its removal succeeds, a failing removal is only logged; a created temporary file is
  added, a successful rename moves it to the output path, a successful remove deletes it.
\<close>

definition prepareBackupOutput ::
  "outputEnv \<Rightarrow> string \<Rightarrow> backupOptions \<Rightarrow> string set \<Rightarrow> error option \<times> string set" where
  "prepareBackupOutput oe dstRoot opts files0 =
     (let ingestDir = dstRoot @ ''/ingest'';
          files = (if StatIngest oe = None \<and> RemoveAllIngest oe = None
                   then files0 - {ingestDir} else files0)
      in
      if outputFormat opts \<noteq> outputFormatTar then (None, files)
      else
        (case OnTarExporting oe of
           Some err \<Rightarrow> (Some err, files)
         | None \<Rightarrow>
        (case CreateTemp oe of
           Inl err \<Rightarrow> (Some (CreateTempTarFailed err), files)
         | Inr tempTarPath \<Rightarrow>
        (let files1 = insert tempTarPath files in
        (case TarDirectory oe of
           Some err \<Rightarrow> (Some (TarArchiveFailed dstRoot err), files1)
         | None \<Rightarrow>
        (case CloseTempTar oe of
           Some err \<Rightarrow> (Some (CloseTempTarFailed err), files1)
         | None \<Rightarrow>
        (case (if IsAbs oe then Inr (output opts) else Abs oe) of
           Inl err \<Rightarrow> (Some (AbsPathFailed (output opts) err), files1)
         | Inr absOutput \<Rightarrow>
        (case MkdirAll oe of
           Some err \<Rightarrow> (Some (MkdirOutputFailed absOutput err), files1)
         | None \<Rightarrow>
        (case Rename oe of
           Some err \<Rightarrow>
             (Some err,
              (case Remove oe of None \<Rightarrow> files1 - {tempTarPath} | Some removeErr \<Rightarrow> files1))
         | None \<Rightarrow>
        (let files2 = insert absOutput (files1 - {tempTarPath}) in
        (case StatOutput oe of
           Inl err \<Rightarrow> (Some (StatOutputFailed absOutput err), files2)
         | Inr fileSize \<Rightarrow> (OnTarExported oe fileSize, files2))))))))))))"

text \<open>
  What \<^verbatim>\<open>runBackup\<close> meets outside the command file: the temporary directory, the
  source repository and destination store, the remote tag listing, the handlers, a tracking
  scope and an engine for each iteration of the tag loop, \<^verbatim>\<open>oerrors.UnwrapCopyError\<close>,
  and the command path and usage line of the error message.
\<close>

record backupEnv =
  MkdirTemp :: "error + string"
  RemoveAllTempDir :: "error option"
  NewRepository :: "error option"
  OciNew :: "error option"
  RegistryTags :: "error + string list"
  OnTagsFound :: "string list \<Rightarrow> error option"
  TagTracker :: "nat \<Rightarrow> tracker"
  TagEngine :: "nat \<Rightarrow> engine"
  OnArtifactPulled :: "string \<Rightarrow> int \<Rightarrow> error option"
  UnwrapCopyError :: "error \<Rightarrow> error"
  ParentCommandPath :: string
  Use :: string
  OutputEnv :: outputEnv
  OnBackupCompleted :: "nat \<Rightarrow> string \<Rightarrow> error option"

text \<open>The loop over the tags; \<open>i\<close> counts the iterations.\<close>

fun backupLoop ::
  "backupEnv \<Rightarrow> bool \<Rightarrow> oras_CopyOptions \<Rightarrow> oras_ExtendedCopyOptions \<Rightarrow> nat \<Rightarrow> string list
     \<Rightarrow> error option \<times> engine_call list" where
  "backupLoop env inclReferrers copyOpts extendedCopyOpts i [] = (None, [])"
| "backupLoop env inclReferrers copyOpts extendedCopyOpts i (t # ts) =
     (case backupTagStep (TagTracker env i) (TagEngine env i) t inclReferrers copyOpts
             extendedCopyOpts of
        ((referrerCount, Some err), calls) \<Rightarrow> (Some (UnwrapCopyError env err), calls)
      | ((referrerCount, None), calls) \<Rightarrow>
          (case OnArtifactPulled env t referrerCount of
             Some err \<Rightarrow> (Some err, calls)
           | None \<Rightarrow>
               (case backupLoop env inclReferrers copyOpts extendedCopyOpts (Suc i) ts of
                  (err, calls') \<Rightarrow> (err, calls @ calls'))))"

text \<open>The error of the empty tag list, an \<^verbatim>\<open>oerrors.Error\<close> with usage and recommendation.\<close>

definition noTagsFound :: "backupEnv \<Rightarrow> backupOptions \<Rightarrow> error" where
  \<open>noTagsFound env opts =
     NoTagsFound (repository opts) (ParentCommandPath env @ '' '' @ Use env)
       (''If you want to list available tags in '' @ repository opts @
        '', use "oras repo tags"'')\<close>

text \<open>\<^verbatim>\<open>runBackup\<close> from the creation of the source repository on, with \<open>dstRoot\<close> chosen.\<close>

definition runBackup_from ::
  "backupEnv \<Rightarrow> backupOptions \<Rightarrow> string \<Rightarrow> string set
     \<Rightarrow> error option \<times> engine_call list \<times> string set" where
  "runBackup_from env opts dstRoot files =
     (case NewRepository env of
        Some err \<Rightarrow> (Some err, [], files)
      | None \<Rightarrow>
     (case OciNew env of
        Some err \<Rightarrow> (Some (CreateOCIStoreFailed err), [], files)
      | None \<Rightarrow>
     (case findTagsToBackup (RegistryTags env) (tags opts) of
        Inl err \<Rightarrow> (Some (GetTagsFailed err), [], files)
      | Inr tagList \<Rightarrow>
          if length tagList = 0 then (Some (noTagsFound env opts), [], files)
          else
            (case OnTagsFound env tagList of
               Some err \<Rightarrow> (Some err, [], files)
             | None \<Rightarrow>
                 let copyGraphOpts = DefaultCopyGraphOptions
                       \<lparr>Concurrency := concurrency opts, PreCopy := Some HandlerPreCopy,
                        PostCopy := Some HandlerPostCopy,
                        OnCopySkipped := Some HandlerOnCopySkipped\<rparr>;
                     copyOpts = \<lparr>CopyOptions_CopyGraphOptions = copyGraphOpts,
                                 TargetPlatform = None\<rparr>;
                     extendedCopyOpts = \<lparr>ExtendedCopyGraphOptions =
                        \<lparr>CopyGraphOptions = copyGraphOpts, Depth = 0, FindPredecessors = None\<rparr>\<rparr>
                 in (case backupLoop env (includeReferrers opts) copyOpts extendedCopyOpts 0 tagList of
                       (Some err, calls) \<Rightarrow> (Some err, calls, files)
                     | (None, calls) \<Rightarrow>
                         (case prepareBackupOutput (OutputEnv env) dstRoot opts files of
                            (Some err, files') \<Rightarrow> (Some err, calls, files')
                          | (None, files') \<Rightarrow>
                              (OnBackupCompleted env (length tagList) (output opts), calls, files')))))))"

text \<open>
  \<^verbatim>\<open>runBackup\<close>: the error, the requests sent to the engine and the paths left behind.
  For a tar output the temporary directory is removed by a deferred function on every
  return that follows its creation; a failing removal is only logged.
\<close>

definition runBackup ::
  "backupEnv \<Rightarrow> backupOptions \<Rightarrow> string set \<Rightarrow> error option \<times> engine_call list \<times> string set" where
  "runBackup env opts files =
     (case outputFormat opts of
        outputFormatDir \<Rightarrow> runBackup_from env opts (output opts) files
      | outputFormatTar \<Rightarrow>
          (case MkdirTemp env of
             Inl err \<Rightarrow> (Some (CreateTempDirFailed err), [], files)
           | Inr tempDir \<Rightarrow>
               (case runBackup_from env opts tempDir (insert tempDir files) of
                  (err, calls, files') \<Rightarrow>
                    (err, calls,
                     (case RemoveAllTempDir env of
                        None \<Rightarrow> files' - {tempDir}
                      | Some removeErr \<Rightarrow> files'))))
      | outputFormatOther \<Rightarrow> (Some UnsupportedOutputFormat, [], files))"

section \<open>Example values\<close>

text \<open>A reference parser that knows one repository, for the examples below.\<close>

definition examplePkg :: registry_pkg where
  "examplePkg =
     \<lparr>ParseReference = (\<lambda>s. if s = ''localhost:5000/hello''
                             then Inr \<lparr>Registry = ''localhost:5000'', Repository = ''hello'',
                                       Reference = []\<rparr>
                             else Inl (External ''invalid reference'')),
      ReferenceString = (\<lambda>r. Registry r @ ''/'' @ Repository r)\<rparr>"

text \<open>A reference parser that takes every string as a repository name.\<close>

definition lenientPkg :: registry_pkg where
  "lenientPkg =
     \<lparr>ParseReference = (\<lambda>s. Inr \<lparr>Registry = [], Repository = s, Reference = []\<rparr>),
      ReferenceString = (\<lambda>r. Repository r)\<rparr>"

text \<open>
  An index \<open>aaa\<close> with the children \<open>bbb\<close> and \<open>ccc\<close>; \<open>ddd\<close> refers to \<open>ccc\<close>.  The
  predecessors found for the children are \<open>ddd\<close> and a descriptor that differs from the root
  in its annotations only.
\<close>

definition exampleRoot :: descriptor where
  "exampleRoot = \<lparr>MediaType = MediaTypeImageIndex, Digest = ''sha256:aaa'', Size = 100,
                   ArtifactType = [], Annotations = []\<rparr>"

definition exampleRootAnnotated :: descriptor where
  "exampleRootAnnotated = exampleRoot\<lparr>Annotations := [(''k'', ''v'')]\<rparr>"

definition exampleChildB :: descriptor where
  "exampleChildB = \<lparr>MediaType = ''application/vnd.oci.image.manifest.v1+json'',
                     Digest = ''sha256:bbb'', Size = 10, ArtifactType = [], Annotations = []\<rparr>"

definition exampleChildC :: descriptor where
  "exampleChildC = exampleChildB\<lparr>Digest := ''sha256:ccc''\<rparr>"

definition exampleReferrerD :: descriptor where
  "exampleReferrerD = exampleChildB\<lparr>Digest := ''sha256:ddd'', ArtifactType := ''sbom''\<rparr>"

definition exampleEngine :: engine where
  "exampleEngine =
     \<lparr>Resolve = (\<lambda>ref platform. if ref = ''v1'' then Inr exampleRoot
                                  else Inl (External ''not found'')),
      FetchAll = (\<lambda>desc. Inr ''index''),
      UnmarshalIndex = (\<lambda>fetched. Inr \<lparr>Manifests = [exampleChildB, exampleChildC]\<rparr>),
      GraphFindPredecessors = (\<lambda>descs opts. Inr [exampleRootAnnotated, exampleReferrerD]),
      SrcReferrers = (\<lambda>desc. Inr []),
      DstReferrers = (\<lambda>desc. Inr [exampleReferrerD]),
      Copy = (\<lambda>srcRef dstRef opts. (exampleRoot, None)),
      CopyGraph = (\<lambda>desc opts. None),
      ExtendedCopy = (\<lambda>srcRef dstRef opts. None),
      ExtendedCopyGraph = (\<lambda>desc opts. None)\<rparr>"

text \<open>Extended copy options whose predecessor lookup finds nothing.\<close>

definition exampleOptions :: oras_ExtendedCopyOptions where
  "exampleOptions =
     \<lparr>ExtendedCopyGraphOptions =
        \<lparr>CopyGraphOptions = DefaultCopyGraphOptions, Depth = 0,
         FindPredecessors = Some (\<lambda>desc. Inr [])\<rparr>\<rparr>"

text \<open>Targets, a tracking scope and options of the copy command.\<close>

definition exampleSrc :: target where
  "exampleSrc = RemoteRepository
     \<lparr>Registry = ''localhost:5000'', Repository = ''hello'', Reference = ''v1''\<rparr>"

definition exampleDstSameHost :: target where
  "exampleDstSameHost = RemoteRepository
     \<lparr>Registry = ''localhost:5000'', Repository = ''hello-copy'', Reference = ''v1''\<rparr>"

definition exampleDstOtherHost :: target where
  "exampleDstOtherHost = RemoteRepository
     \<lparr>Registry = ''localhost:6000'', Repository = ''hello-copy'', Reference = ''v1''\<rparr>"

definition exampleTracker :: tracker where
  "exampleTracker = \<lparr>StartTracking = None, StopTracking = Some (External ''stop failed'')\<rparr>"

definition exampleCopyOptions :: copyOptions where
  "exampleCopyOptions =
     \<lparr>recursive = False, concurrency = 3, From_Reference = ''v1'', To_Reference = ''v1'',
      Platform = None\<rparr>"

text \<open>
  A backup of the tag \<open>v1\<close> into \<open>hello.tar\<close> in which every collaborator succeeds except
  the archiving of the staged directory.
\<close>

definition exampleBackupOptions :: backupOptions where
  "exampleBackupOptions =
     \<lparr>output = ''hello.tar'', includeReferrers = False, concurrency = 3,
      outputFormat = outputFormatTar, repository = ''localhost:5000/hello'', tags = [''v1'']\<rparr>"

definition exampleOutputEnv :: outputEnv where
  "exampleOutputEnv =
     \<lparr>StatIngest = None, RemoveAllIngest = None,
      OnTarExporting = None, CreateTemp = Inr ''/tmp/oras-backup-2.tar'',
      TarDirectory = Some (External ''no space left on device''), CloseTempTar = None,
      IsAbs = False, Abs = Inr ''/home/user/hello.tar'', MkdirAll = None, Rename = None,
      Remove = None, StatOutput = Inr 10240, OnTarExported = (\<lambda>fileSize. None)\<rparr>"

definition exampleBackupEnv :: backupEnv where
  "exampleBackupEnv =
     \<lparr>MkdirTemp = Inr ''/tmp/oras-backup-1'', RemoveAllTempDir = None, NewRepository = None,
      OciNew = None, RegistryTags = Inr [], OnTagsFound = (\<lambda>tagList. None),
      TagTracker = (\<lambda>i. \<lparr>StartTracking = None, StopTracking = None\<rparr>),
      TagEngine = (\<lambda>i. exampleEngine), OnArtifactPulled = (\<lambda>tag referrerCount. None),
      UnwrapCopyError = (\<lambda>err. err), ParentCommandPath = ''oras'',
      Use = ''backup [flags] --output <path> <registry>/<repository>[:<ref1>[,<ref2>...]]'',
      OutputEnv = exampleOutputEnv, OnBackupCompleted = (\<lambda>n path. None)\<rparr>"

section \<open>The tag grammar, characterised\<close>

lemma rmatch_Repeat_CharClass:
  "set (rmatch (Repeat (CharClass p) n) s) =
     {drop k s | k. k \<le> n \<and> k \<le> length s \<and> (\<forall>c\<in>set (take k s). p c)}"
proof (induction n arbitrary: s)
  case 0
  then show ?case by auto
next
  case (Suc n)
  show ?case
  proof (cases s)
    case Nil
    then show ?thesis by auto
  next
    case (Cons c cs)
    show ?thesis
    proof (cases "p c")
      case True
      have "{drop k (c # cs) | k. k \<le> Suc n \<and> k \<le> length (c # cs) \<and> (\<forall>x\<in>set (take k (c # cs)). p x)}
          = insert (c # cs) {drop k cs | k. k \<le> n \<and> k \<le> length cs \<and> (\<forall>x\<in>set (take k cs). p x)}"
        (is "?L = ?R")
      proof (rule set_eqI)
        fix x
        show "x \<in> ?L \<longleftrightarrow> x \<in> ?R"
        proof
          assume "x \<in> ?L"
          then obtain k where k: "x = drop k (c # cs)" "k \<le> Suc n" "k \<le> length (c # cs)"
            "\<forall>x\<in>set (take k (c # cs)). p x" by blast
          show "x \<in> ?R"
          proof (cases k)
            case 0
            with k show ?thesis by simp
          next
            case (Suc j)
            with k have "x = drop j cs" "j \<le> n" "j \<le> length cs" "\<forall>x\<in>set (take j cs). p x"
              by simp_all
            then show ?thesis by blast
          qed
        next
          assume "x \<in> ?R"
          then consider "x = c # cs"
            | j where "x = drop j cs" "j \<le> n" "j \<le> length cs" "\<forall>x\<in>set (take j cs). p x"
            by blast
          then show "x \<in> ?L"
          proof cases
            case 1
            then have "x = drop 0 (c # cs)" by simp
            then show ?thesis by force
          next
            case 2
            with True have "x = drop (Suc j) (c # cs)" "Suc j \<le> Suc n" "Suc j \<le> length (c # cs)"
              "\<forall>x\<in>set (take (Suc j) (c # cs)). p x" by simp_all
            then show ?thesis by blast
          qed
        qed
      qed
      with True Cons Suc.IH [of cs] show ?thesis by simp
    next
      case False
      have "{drop k (c # cs) | k. k \<le> Suc n \<and> k \<le> length (c # cs) \<and> (\<forall>x\<in>set (take k (c # cs)). p x)}
          = {c # cs}" (is "?L = _")
      proof (rule set_eqI)
        fix x
        show "x \<in> ?L \<longleftrightarrow> x \<in> {c # cs}"
        proof
          assume "x \<in> ?L"
          then obtain k where k: "x = drop k (c # cs)" "\<forall>x\<in>set (take k (c # cs)). p x" by blast
          with False have "k = 0" by (cases k) auto
          with k show "x \<in> {c # cs}" by simp
        next
          assume "x \<in> {c # cs}"
          then have "x = drop 0 (c # cs)" by simp
          then show "x \<in> ?L" by force
        qed
      qed
      with False Cons show ?thesis by simp
    qed
  qed
qed

lemma MatchString_tagRegexp:
  "MatchString tagRegexp s \<longleftrightarrow>
     (\<exists>c cs. s = c # cs \<and> isWord c \<and> length cs \<le> 127 \<and> (\<forall>x\<in>set cs. isWordDotDash x))"
proof (cases s)
  case Nil
  then show ?thesis by (simp add: MatchString_def tagRegexp_def)
next
  case (Cons c cs)
  have "[] \<in> set (rmatch (Repeat (CharClass isWordDotDash) 127) cs) \<longleftrightarrow>
        length cs \<le> 127 \<and> (\<forall>x\<in>set cs. isWordDotDash x)"
    unfolding rmatch_Repeat_CharClass by auto
  with Cons show ?thesis by (simp add: MatchString_def tagRegexp_def)
qed

section \<open>The parser, characterised\<close>

lemma leadingSpace_Nil: "leadingSpace [] = 0"
  by (simp add: leadingSpace_def unicodeSpaces_def)

lemma trailingSpace_Nil: "trailingSpace [] = 0"
  by (simp add: trailingSpace_def unicodeSpaces_def)

lemma TrimSpace_Nil: "TrimSpace [] = []"
  by (simp add: TrimSpace_def TrimLeftSpace.simps TrimRightSpace.simps leadingSpace_Nil trailingSpace_Nil)

lemma isWord_isWordDotDash: "isWord c \<Longrightarrow> isWordDotDash c"
  by (simp add: isWordDotDash_def)

lemma MatchString_all_tag_chars:
  "MatchString tagRegexp s \<Longrightarrow> \<forall>c\<in>set s. isWordDotDash c"
  by (auto simp: MatchString_tagRegexp isWord_isWordDotDash)

lemma unicodeSpaces_hd: "w \<in> set unicodeSpaces \<Longrightarrow> w \<noteq> [] \<and> \<not> isWordDotDash (hd w)"
  by (auto simp: unicodeSpaces_def isWordDotDash_def isWord_def)

lemma validateTags_find:
  "validateTags ref segs acc =
     (case find (\<lambda>tag. tag \<noteq> [] \<and> \<not> MatchString tagRegexp tag) (map TrimSpace segs) of
        None \<Rightarrow> Inr (acc @ filter (\<lambda>tag. tag \<noteq> []) (map TrimSpace segs))
      | Some tag \<Rightarrow> Inl (InvalidTag tag ref))"
  by (induction segs arbitrary: acc) (auto simp: Let_def split: option.splits)

lemma parseArtifactsToBackup_find:
  assumes "artifactRefs \<noteq> []" and "CHR ''@'' \<notin> set artifactRefs"
    and "splitRepoTags artifactRefs = (repoParts, tagsPart)"
    and "ParseReference pkg repoParts = Inr parsedRepo"
  shows "parseArtifactsToBackup pkg artifactRefs =
     (case find (\<lambda>tag. tag \<noteq> [] \<and> \<not> MatchString tagRegexp tag)
             (map TrimSpace (Split tagsPart CHR '','')) of
        None \<Rightarrow> Inr (ReferenceString pkg parsedRepo,
                     filter (\<lambda>tag. tag \<noteq> []) (map TrimSpace (Split tagsPart CHR '','')))
      | Some tag \<Rightarrow> Inl (InvalidTag tag artifactRefs))"
proof (cases "tagsPart = []")
  case True
  with assms show ?thesis
    by (simp add: parseArtifactsToBackup_def TrimSpace_Nil)
next
  case False
  with assms show ?thesis
    by (simp add: parseArtifactsToBackup_def validateTags_find split: option.splits)
qed

lemma find_first:
  "\<forall>x\<in>set pre. \<not> P x \<Longrightarrow> P y \<Longrightarrow> find P (pre @ y # post) = Some y"
  by (induction pre) simp_all

lemma find_none: "\<forall>x\<in>set xs. \<not> P x \<Longrightarrow> find P xs = None"
  by (induction xs) simp_all

lemma embedded_space_no_match:
  assumes "w \<in> set unicodeSpaces" and "tag = u @ w @ v"
  shows "\<not> MatchString tagRegexp tag"
proof
  assume "MatchString tagRegexp tag"
  then have all: "\<forall>c\<in>set tag. isWordDotDash c" by (rule MatchString_all_tag_chars)
  from assms(1) have "w \<noteq> []" and bad: "\<not> isWordDotDash (hd w)"
    using unicodeSpaces_hd by blast+
  then have "hd w \<in> set tag" using assms(2) by simp
  with all bad show False by blast
qed

lemma leading_nonword_no_match: "\<not> isWord (hd tag) \<Longrightarrow> \<not> MatchString tagRegexp tag"
  by (auto simp: MatchString_tagRegexp)

lemma too_long_no_match: "length tag > 128 \<Longrightarrow> \<not> MatchString tagRegexp tag"
  by (auto simp: MatchString_tagRegexp)

section \<open>Claims about the backup reference\<close>

text \<open>
  C8 (tag grammar enforcement).  For a reference that is not empty, has no \<open>@\<close> and whose
  repository part parses, take the comma-separated segments of the tag part, trimmed.
  If every non-empty one matches \<^verbatim>\<open>^[\w][\w.-]{0,127}$\<close>, all of them are accepted: the
  parser returns them, in order.  A tag that starts with a character outside \<^verbatim>\<open>\w\<close>
  (every punctuation character but the underscore, which the grammar counts as a word
  character), that contains white space, or that is longer than 128 is rejected: when the
  tags before it are valid the parser stops there and returns the error that carries this
  tag and the reference.  The parser is a pure function of the reference string and the
  reference syntax check, so it ends before any request is made.
\<close>

theorem tag_grammar_enforcement:
  assumes "artifactRefs \<noteq> []" and "CHR ''@'' \<notin> set artifactRefs"
    and "splitRepoTags artifactRefs = (repoParts, tagsPart)"
    and "ParseReference pkg repoParts = Inr parsedRepo"
  shows
    "((\<forall>seg\<in>set (Split tagsPart CHR '',''). TrimSpace seg = [] \<or> MatchString tagRegexp (TrimSpace seg)) \<longrightarrow>
        parseArtifactsToBackup pkg artifactRefs =
          Inr (ReferenceString pkg parsedRepo,
               filter (\<lambda>tag. tag \<noteq> []) (map TrimSpace (Split tagsPart CHR '','')))) \<and>
     (\<forall>pre seg post.
        Split tagsPart CHR '','' = pre @ seg # post \<and>
        (\<forall>s\<in>set pre. TrimSpace s = [] \<or> MatchString tagRegexp (TrimSpace s)) \<and>
        TrimSpace seg \<noteq> [] \<and>
        (\<not> isWord (hd (TrimSpace seg)) \<or>
         (\<exists>w\<in>set unicodeSpaces. \<exists>u v. TrimSpace seg = u @ w @ v) \<or>
         length (TrimSpace seg) > 128) \<longrightarrow>
        parseArtifactsToBackup pkg artifactRefs = Inl (InvalidTag (TrimSpace seg) artifactRefs))"
proof (intro conjI impI allI)
  assume ok: "\<forall>seg\<in>set (Split tagsPart CHR '',''). TrimSpace seg = [] \<or> MatchString tagRegexp (TrimSpace seg)"
  then have "find (\<lambda>tag. tag \<noteq> [] \<and> \<not> MatchString tagRegexp tag)
               (map TrimSpace (Split tagsPart CHR '','')) = None"
    by (intro find_none) auto
  then show "parseArtifactsToBackup pkg artifactRefs =
          Inr (ReferenceString pkg parsedRepo,
               filter (\<lambda>tag. tag \<noteq> []) (map TrimSpace (Split tagsPart CHR '','')))"
    by (simp add: parseArtifactsToBackup_find [OF assms])
next
  fix pre seg post
  assume h: "Split tagsPart CHR '','' = pre @ seg # post \<and>
        (\<forall>s\<in>set pre. TrimSpace s = [] \<or> MatchString tagRegexp (TrimSpace s)) \<and>
        TrimSpace seg \<noteq> [] \<and>
        (\<not> isWord (hd (TrimSpace seg)) \<or>
         (\<exists>w\<in>set unicodeSpaces. \<exists>u v. TrimSpace seg = u @ w @ v) \<or>
         length (TrimSpace seg) > 128)"
  then have bad: "\<not> MatchString tagRegexp (TrimSpace seg)"
    using leading_nonword_no_match embedded_space_no_match too_long_no_match by blast
  have "map TrimSpace (Split tagsPart CHR '','') =
          map TrimSpace pre @ TrimSpace seg # map TrimSpace post"
    using h by simp
  moreover have "find (\<lambda>tag. tag \<noteq> [] \<and> \<not> MatchString tagRegexp tag)
          (map TrimSpace pre @ TrimSpace seg # map TrimSpace post) = Some (TrimSpace seg)"
    using h bad by (intro find_first) auto
  ultimately show "parseArtifactsToBackup pkg artifactRefs =
          Inl (InvalidTag (TrimSpace seg) artifactRefs)"
    by (simp add: parseArtifactsToBackup_find [OF assms])
qed

theorem tag_grammar_enforcement_witness:
  "parseArtifactsToBackup examplePkg ''localhost:5000/hello:v1.0,-bad,v2'' =
     Inl (InvalidTag ''-bad'' ''localhost:5000/hello:v1.0,-bad,v2'') \<and>
   parseArtifactsToBackup examplePkg ''localhost:5000/hello:v1.0,_v2'' =
     Inr (''localhost:5000/hello'', [''v1.0'', ''_v2''])"
proof -
  let ?bad = "''localhost:5000/hello:v1.0,-bad,v2''"
  let ?good = "''localhost:5000/hello:v1.0,_v2''"
  let ?repo = "\<lparr>Registry = ''localhost:5000'', Repository = ''hello'', Reference = []\<rparr>"
  have p: "ParseReference examplePkg ''localhost:5000/hello'' = Inr ?repo"
    by (simp add: examplePkg_def)
  have b1: "?bad \<noteq> []" and b2: "CHR ''@'' \<notin> set ?bad" by simp_all
  have b3: "splitRepoTags ?bad = (''localhost:5000/hello'', ''v1.0,-bad,v2'')" by code_simp
  have b4: "Split ''v1.0,-bad,v2'' CHR '','' = [''v1.0''] @ ''-bad'' # [''v2'']" by code_simp
  have t1: "TrimSpace ''v1.0'' = ''v1.0''" by code_simp
  have t2: "TrimSpace ''-bad'' = ''-bad''" by code_simp
  have m1: "MatchString tagRegexp ''v1.0''" by code_simp
  have w2: "\<not> isWord (hd ''-bad'')" by code_simp
  have bad: "parseArtifactsToBackup examplePkg ?bad = Inl (InvalidTag ''-bad'' ?bad)"
    using conjunct2 [OF tag_grammar_enforcement [OF b1 b2 b3 p], rule_format, of "[''v1.0'']" "''-bad''" "[''v2'']"]
      b4 t1 t2 m1 w2 by simp
  have g1: "?good \<noteq> []" and g2: "CHR ''@'' \<notin> set ?good" by simp_all
  have g3: "splitRepoTags ?good = (''localhost:5000/hello'', ''v1.0,_v2'')" by code_simp
  have g4: "Split ''v1.0,_v2'' CHR '','' = [''v1.0'', ''_v2'']" by code_simp
  have t3: "TrimSpace ''_v2'' = ''_v2''" by code_simp
  have m3: "MatchString tagRegexp ''_v2''" by code_simp
  have good: "parseArtifactsToBackup examplePkg ?good = Inr (''localhost:5000/hello'', [''v1.0'', ''_v2''])"
    using conjunct1 [OF tag_grammar_enforcement [OF g1 g2 g3 p]] g4 t1 t3 m1 m3
    by (simp add: examplePkg_def)
  from bad good show ?thesis by simp
qed

lemma filter_all_empty: "\<forall>x\<in>set xs. x = [] \<Longrightarrow> filter (\<lambda>t. t \<noteq> []) xs = []"
  by (induction xs) simp_all

text \<open>
  C10 (segments are trimmed, empty ones skipped).  Under the same conditions the parser's
  result is decided by the trimmed segments alone: the first non-empty trimmed segment that
  does not match gives the error, and otherwise the result is the list of the non-empty
  trimmed segments, so an empty segment is left out and not rejected.  When every segment is
  empty after trimming the tag list is empty, and \<^verbatim>\<open>findTagsToBackup\<close> on an empty
  tag list returns what the remote listing returns.  For any reference parser that takes
  \<open>repo\<close>, the reference \<open>repo:v1,,v2\<close> gives exactly the tags \<open>v1\<close> and \<open>v2\<close>, and so
  does \<open>repo: v1 ,v2\<close>.
\<close>

theorem tag_segments_trimmed_and_skipped:
  assumes "artifactRefs \<noteq> []" and "CHR ''@'' \<notin> set artifactRefs"
    and "splitRepoTags artifactRefs = (repoParts, tagsPart)"
    and "ParseReference pkg repoParts = Inr parsedRepo"
  shows
    "parseArtifactsToBackup pkg artifactRefs =
       (case find (\<lambda>tag. tag \<noteq> [] \<and> \<not> MatchString tagRegexp tag)
               (map TrimSpace (Split tagsPart CHR '','')) of
          None \<Rightarrow> Inr (ReferenceString pkg parsedRepo,
                       filter (\<lambda>tag. tag \<noteq> []) (map TrimSpace (Split tagsPart CHR '','')))
        | Some tag \<Rightarrow> Inl (InvalidTag tag artifactRefs)) \<and>
     ((\<forall>seg\<in>set (Split tagsPart CHR '',''). TrimSpace seg = []) \<longrightarrow>
        parseArtifactsToBackup pkg artifactRefs = Inr (ReferenceString pkg parsedRepo, []) \<and>
        (\<forall>registryTags. findTagsToBackup registryTags [] = registryTags)) \<and>
     (\<forall>pkg' r. ParseReference pkg' ''repo'' = Inr r \<longrightarrow>
        parseArtifactsToBackup pkg' ''repo:v1,,v2'' = Inr (ReferenceString pkg' r, [''v1'', ''v2'']) \<and>
        parseArtifactsToBackup pkg' ''repo: v1 ,v2'' = Inr (ReferenceString pkg' r, [''v1'', ''v2'']))"
proof (intro conjI impI allI)
  show "parseArtifactsToBackup pkg artifactRefs =
       (case find (\<lambda>tag. tag \<noteq> [] \<and> \<not> MatchString tagRegexp tag)
               (map TrimSpace (Split tagsPart CHR '','')) of
          None \<Rightarrow> Inr (ReferenceString pkg parsedRepo,
                       filter (\<lambda>tag. tag \<noteq> []) (map TrimSpace (Split tagsPart CHR '','')))
        | Some tag \<Rightarrow> Inl (InvalidTag tag artifactRefs))"
    by (rule parseArtifactsToBackup_find [OF assms])
next
  assume e: "\<forall>seg\<in>set (Split tagsPart CHR '',''). TrimSpace seg = []"
  then have "find (\<lambda>tag. tag \<noteq> [] \<and> \<not> MatchString tagRegexp tag)
               (map TrimSpace (Split tagsPart CHR '','')) = None"
    by (intro find_none) auto
  moreover from e have "filter (\<lambda>tag. tag \<noteq> []) (map TrimSpace (Split tagsPart CHR '','')) = []"
    by (intro filter_all_empty) auto
  ultimately show "parseArtifactsToBackup pkg artifactRefs = Inr (ReferenceString pkg parsedRepo, [])"
    by (simp add: parseArtifactsToBackup_find [OF assms])
next
  fix registryTags :: "error + string list"
  show "findTagsToBackup registryTags [] = registryTags"
    by (simp add: findTagsToBackup_def)
next
  fix pkg' :: registry_pkg and r
  assume p: "ParseReference pkg' ''repo'' = Inr r"
  have a1: "''repo:v1,,v2'' \<noteq> []" and a2: "CHR ''@'' \<notin> set ''repo:v1,,v2''" by simp_all
  have a3: "splitRepoTags ''repo:v1,,v2'' = (''repo'', ''v1,,v2'')" by code_simp
  have a4: "TrimSpace ''v1'' = ''v1''" "TrimSpace ''v2'' = ''v2''" "TrimSpace [] = []"
    by code_simp+
  have m1: "MatchString tagRegexp ''v1''" and m2: "MatchString tagRegexp ''v2''" by code_simp+
  show "parseArtifactsToBackup pkg' ''repo:v1,,v2'' = Inr (ReferenceString pkg' r, [''v1'', ''v2''])"
    by (simp add: parseArtifactsToBackup_find [OF a1 a2 a3 p] a4 m1 m2)
next
  fix pkg' :: registry_pkg and r
  assume p: "ParseReference pkg' ''repo'' = Inr r"
  have a1: "''repo: v1 ,v2'' \<noteq> []" and a2: "CHR ''@'' \<notin> set ''repo: v1 ,v2''" by simp_all
  have a3: "splitRepoTags ''repo: v1 ,v2'' = (''repo'', '' v1 ,v2'')" by code_simp
  have a4: "TrimSpace '' v1 '' = ''v1''" "TrimSpace ''v2'' = ''v2''"
    by code_simp+
  have m1: "MatchString tagRegexp ''v1''" and m2: "MatchString tagRegexp ''v2''" by code_simp+
  show "parseArtifactsToBackup pkg' ''repo: v1 ,v2'' = Inr (ReferenceString pkg' r, [''v1'', ''v2''])"
    by (simp add: parseArtifactsToBackup_find [OF a1 a2 a3 p] a4 m1 m2)
qed

theorem tag_segments_trimmed_and_skipped_witness:
  "parseArtifactsToBackup examplePkg ''localhost:5000/hello:, ,'' = Inr (''localhost:5000/hello'', []) \<and>
   findTagsToBackup (Inr [''latest'']) [] = Inr [''latest''] \<and>
   parseArtifactsToBackup lenientPkg ''repo:v1,,v2'' = Inr (''repo'', [''v1'', ''v2''])"
proof -
  let ?ref = "''localhost:5000/hello:, ,''"
  let ?repo = "\<lparr>Registry = ''localhost:5000'', Repository = ''hello'', Reference = []\<rparr>"
  have p: "ParseReference examplePkg ''localhost:5000/hello'' = Inr ?repo"
    by (simp add: examplePkg_def)
  have b1: "?ref \<noteq> []" and b2: "CHR ''@'' \<notin> set ?ref" by simp_all
  have b3: "splitRepoTags ?ref = (''localhost:5000/hello'', '', ,'')" by code_simp
  have b4: "Split '', ,'' CHR '','' = [[], '' '', []]" by code_simp
  have t1: "TrimSpace '' '' = []" by code_simp
  have q: "ParseReference lenientPkg ''repo'' = Inr \<lparr>Registry = [], Repository = ''repo'', Reference = []\<rparr>"
    by (simp add: lenientPkg_def)
  note inst = tag_segments_trimmed_and_skipped [OF b1 b2 b3 p]
  have "parseArtifactsToBackup examplePkg ?ref = Inr (''localhost:5000/hello'', []) \<and>
        findTagsToBackup (Inr [''latest'']) [] = Inr [''latest'']"
    using conjunct1 [OF conjunct2 [OF inst]] b4 t1 TrimSpace_Nil by (simp add: examplePkg_def)
  moreover have "parseArtifactsToBackup lenientPkg ''repo:v1,,v2'' = Inr (''repo'', [''v1'', ''v2''])"
    using conjunct2 [OF conjunct2 [OF inst], rule_format, OF q] by (simp add: lenientPkg_def)
  ultimately show ?thesis by simp
qed

lemma prepareCopyOption_augmented:
  assumes "MediaType root = MediaTypeImageIndex \<or> MediaType root = MediaTypeManifestList"
    and "FetchAll eng root = Inr fetched" and "UnmarshalIndex eng fetched = Inr idx"
    and "Manifests idx \<noteq> []"
    and "GraphFindPredecessors eng (Manifests idx) opts = Inr found"
    and "DeleteFunc found (\<lambda>desc. content_Equal desc root) \<noteq> []"
  shows "prepareCopyOption eng root opts =
     (opts\<lparr>ExtendedCopyGraphOptions := (ExtendedCopyGraphOptions opts)
        \<lparr>FindPredecessors := Some (\<lambda>desc.
           (case callFunc (FindPredecessors (ExtendedCopyGraphOptions opts)) desc of
              Inl err \<Rightarrow> Inl err
            | Inr descs \<Rightarrow>
               if content_Equal desc root
               then Inr (descs @ DeleteFunc found (\<lambda>desc. content_Equal desc root))
               else Inr descs))\<rparr>\<rparr>, None)"
  using assms by (auto simp: prepareCopyOption_def Let_def)

lemma prepareCopyOption_unchanged:
  "MediaType root \<noteq> MediaTypeImageIndex \<and> MediaType root \<noteq> MediaTypeManifestList \<Longrightarrow>
     prepareCopyOption eng root opts = (opts, None)"
  "FetchAll eng root = Inr fetched \<Longrightarrow> UnmarshalIndex eng fetched = Inr idx \<Longrightarrow>
     Manifests idx = [] \<Longrightarrow> prepareCopyOption eng root opts = (opts, None)"
  "FetchAll eng root = Inr fetched \<Longrightarrow> UnmarshalIndex eng fetched = Inr idx \<Longrightarrow>
     GraphFindPredecessors eng (Manifests idx) opts = Inr found \<Longrightarrow>
     DeleteFunc found (\<lambda>desc. content_Equal desc root) = [] \<Longrightarrow>
     prepareCopyOption eng root opts = (opts, None)"
  by (auto simp: prepareCopyOption_def Let_def)

section \<open>Claims about the referrer closure\<close>


text \<open>
  C3 (closure no-op).  \<^verbatim>\<open>prepareCopyOption\<close> returns the options it was given, and
  no error, in three cases: the root's media type is neither the OCI image index nor the
  Docker manifest list; the parsed index has no child manifest; the predecessors found for
  the children are all equal to the root, so that nothing is left after they are deleted.
  The options are the same value, so the predecessor lookup answers every query as before.
\<close>

theorem closure_noop:
  "(MediaType root \<noteq> MediaTypeImageIndex \<and> MediaType root \<noteq> MediaTypeManifestList \<longrightarrow>
      prepareCopyOption eng root opts = (opts, None)) \<and>
   (FetchAll eng root = Inr fetched \<and> UnmarshalIndex eng fetched = Inr idx \<and>
    Manifests idx = [] \<longrightarrow>
      prepareCopyOption eng root opts = (opts, None)) \<and>
   (FetchAll eng root = Inr fetched \<and> UnmarshalIndex eng fetched = Inr idx \<and>
    GraphFindPredecessors eng (Manifests idx) opts = Inr found \<and>
    DeleteFunc found (\<lambda>desc. content_Equal desc root) = [] \<longrightarrow>
      prepareCopyOption eng root opts = (opts, None))"
  by (intro conjI impI) (auto intro: prepareCopyOption_unchanged)


lemma example_media_types:
  "MediaTypeImageIndex \<noteq> ''application/vnd.oci.image.manifest.v1+json''"
  "MediaTypeManifestList \<noteq> ''application/vnd.oci.image.manifest.v1+json''"
  by (simp_all add: MediaTypeImageIndex_def MediaTypeManifestList_def)



theorem closure_noop_witness:
  "prepareCopyOption exampleEngine exampleChildB exampleOptions = (exampleOptions, None) \<and>
   prepareCopyOption (exampleEngine\<lparr>UnmarshalIndex := (\<lambda>fetched. Inr \<lparr>Manifests = []\<rparr>)\<rparr>)
      exampleRoot exampleOptions = (exampleOptions, None) \<and>
   prepareCopyOption (exampleEngine\<lparr>GraphFindPredecessors := (\<lambda>descs opts. Inr [exampleRootAnnotated])\<rparr>)
      exampleRoot exampleOptions = (exampleOptions, None)"
proof -
  let ?e2 = "exampleEngine\<lparr>UnmarshalIndex := (\<lambda>fetched. Inr \<lparr>Manifests = []\<rparr>)\<rparr>"
  let ?e3 = "exampleEngine\<lparr>GraphFindPredecessors := (\<lambda>descs opts. Inr [exampleRootAnnotated])\<rparr>"
  have a: "MediaType exampleChildB \<noteq> MediaTypeImageIndex \<and>
           MediaType exampleChildB \<noteq> MediaTypeManifestList"
    using example_media_types by (simp add: exampleChildB_def)
  have c1: "prepareCopyOption exampleEngine exampleChildB exampleOptions = (exampleOptions, None)"
    using closure_noop [of exampleChildB exampleEngine exampleOptions] a by blast
  have b: "FetchAll ?e2 exampleRoot = Inr ''index'' \<and>
           UnmarshalIndex ?e2 ''index'' = Inr \<lparr>Manifests = []\<rparr> \<and>
           Manifests \<lparr>Manifests = []\<rparr> = []"
    by (simp add: exampleEngine_def)
  have c2: "prepareCopyOption ?e2 exampleRoot exampleOptions = (exampleOptions, None)"
    using closure_noop [of exampleRoot ?e2 exampleOptions "''index''" "\<lparr>Manifests = []\<rparr>"] b
    by blast
  have c: "FetchAll ?e3 exampleRoot = Inr ''index'' \<and>
           UnmarshalIndex ?e3 ''index'' = Inr \<lparr>Manifests = [exampleChildB, exampleChildC]\<rparr> \<and>
           GraphFindPredecessors ?e3 (Manifests \<lparr>Manifests = [exampleChildB, exampleChildC]\<rparr>)
             exampleOptions = Inr [exampleRootAnnotated] \<and>
           DeleteFunc [exampleRootAnnotated] (\<lambda>desc. content_Equal desc exampleRoot) = []"
    by (simp add: exampleEngine_def DeleteFunc_def content_Equal_def exampleRootAnnotated_def)
  have c3: "prepareCopyOption ?e3 exampleRoot exampleOptions = (exampleOptions, None)"
    using closure_noop [of exampleRoot ?e3 exampleOptions "''index''"
        "\<lparr>Manifests = [exampleChildB, exampleChildC]\<rparr>" "[exampleRootAnnotated]"] c
    by blast
  from c1 c2 c3 show ?thesis by simp
qed

lemma DeleteFunc_not_del: "\<forall>x\<in>set (DeleteFunc s del). \<not> del x"
  by (simp add: DeleteFunc_def)

lemma set_DeleteFunc: "set (DeleteFunc s del) = {x \<in> set s. \<not> del x}"
  by (simp add: DeleteFunc_def)

text \<open>
  C2 (self-reference exclusion).  Let the root be an Index whose content is fetched and
  parsed, with at least one child manifest, \<open>found\<close> the predecessors of its children, and
  \<open>baseLookup\<close> the lookup of the options.  Then \<^verbatim>\<open>prepareCopyOption\<close> succeeds, and
  whenever the base lookup answers a query \<open>d\<close>, the returned lookup answers with the base
  result followed by a list \<open>appended\<close> in which no descriptor is equal to the root.  For a
  query equal to the root, \<open>appended\<close> holds exactly the descriptors of \<open>found\<close> that are
  not equal to the root; for any other query it is empty.
\<close>

theorem self_reference_exclusion:
  assumes "MediaType root = MediaTypeImageIndex \<or> MediaType root = MediaTypeManifestList"
    and "FetchAll eng root = Inr fetched" and "UnmarshalIndex eng fetched = Inr idx"
    and "Manifests idx \<noteq> []"
    and "GraphFindPredecessors eng (Manifests idx) opts = Inr found"
    and "FindPredecessors (ExtendedCopyGraphOptions opts) = Some baseLookup"
  shows "\<exists>opts' f. prepareCopyOption eng root opts = (opts', None) \<and>
           FindPredecessors (ExtendedCopyGraphOptions opts') = Some f \<and>
           (\<forall>d descs. baseLookup d = Inr descs \<longrightarrow>
              (\<exists>appended. f d = Inr (descs @ appended) \<and>
                 (\<forall>r\<in>set appended. \<not> content_Equal r root) \<and>
                 (content_Equal d root \<longrightarrow>
                    set appended = {r \<in> set found. \<not> content_Equal r root}) \<and>
                 (\<not> content_Equal d root \<longrightarrow> appended = [])))"
proof (cases "DeleteFunc found (\<lambda>desc. content_Equal desc root) = []")
  case True
  have p: "prepareCopyOption eng root opts = (opts, None)"
    by (rule prepareCopyOption_unchanged(3) [OF assms(2) assms(3) assms(5) True])
  from True have e: "{r \<in> set found. \<not> content_Equal r root} = {}"
    using set_DeleteFunc [of found "\<lambda>desc. content_Equal desc root"] by simp
  have "\<forall>d descs. baseLookup d = Inr descs \<longrightarrow>
              (\<exists>appended. baseLookup d = Inr (descs @ appended) \<and>
                 (\<forall>r\<in>set appended. \<not> content_Equal r root) \<and>
                 (content_Equal d root \<longrightarrow>
                    set appended = {r \<in> set found. \<not> content_Equal r root}) \<and>
                 (\<not> content_Equal d root \<longrightarrow> appended = []))"
  proof (intro allI impI)
    fix d descs
    assume "baseLookup d = Inr descs"
    then have "baseLookup d = Inr (descs @ []) \<and>
                 (\<forall>r\<in>set []. \<not> content_Equal r root) \<and>
                 (content_Equal d root \<longrightarrow>
                    set [] = {r \<in> set found. \<not> content_Equal r root}) \<and>
                 (\<not> content_Equal d root \<longrightarrow> [] = ([]::descriptor list))"
      using e by simp
    then show "\<exists>appended. baseLookup d = Inr (descs @ appended) \<and>
                 (\<forall>r\<in>set appended. \<not> content_Equal r root) \<and>
                 (content_Equal d root \<longrightarrow>
                    set appended = {r \<in> set found. \<not> content_Equal r root}) \<and>
                 (\<not> content_Equal d root \<longrightarrow> appended = [])"
      by (rule exI)
  qed
  with p assms(6) show ?thesis by blast
next
  case False
  let ?kept = "DeleteFunc found (\<lambda>desc. content_Equal desc root)"
  let ?f = "\<lambda>desc.
           (case callFunc (FindPredecessors (ExtendedCopyGraphOptions opts)) desc of
              Inl err \<Rightarrow> Inl err
            | Inr descs \<Rightarrow>
               if content_Equal desc root then Inr (descs @ ?kept) else Inr descs)"
  let ?opts' = "opts\<lparr>ExtendedCopyGraphOptions :=
                    (ExtendedCopyGraphOptions opts)\<lparr>FindPredecessors := Some ?f\<rparr>\<rparr>"
  have p: "prepareCopyOption eng root opts = (?opts', None)"
    by (rule prepareCopyOption_augmented [OF assms(1-5) False])
  have g: "FindPredecessors (ExtendedCopyGraphOptions ?opts') = Some ?f" by simp
  have "\<forall>d descs. baseLookup d = Inr descs \<longrightarrow>
              (\<exists>appended. ?f d = Inr (descs @ appended) \<and>
                 (\<forall>r\<in>set appended. \<not> content_Equal r root) \<and>
                 (content_Equal d root \<longrightarrow>
                    set appended = {r \<in> set found. \<not> content_Equal r root}) \<and>
                 (\<not> content_Equal d root \<longrightarrow> appended = []))"
  proof (intro allI impI)
    fix d descs
    assume b: "baseLookup d = Inr descs"
    show "\<exists>appended. ?f d = Inr (descs @ appended) \<and>
                 (\<forall>r\<in>set appended. \<not> content_Equal r root) \<and>
                 (content_Equal d root \<longrightarrow>
                    set appended = {r \<in> set found. \<not> content_Equal r root}) \<and>
                 (\<not> content_Equal d root \<longrightarrow> appended = [])"
    proof (cases "content_Equal d root")
      case True
      with b assms(6) have 1: "?f d = Inr (descs @ ?kept)" by (simp add: callFunc_def)
      have 2: "\<forall>r\<in>set ?kept. \<not> content_Equal r root" by (rule DeleteFunc_not_del)
      have 3: "content_Equal d root \<longrightarrow> set ?kept = {r \<in> set found. \<not> content_Equal r root}"
        by (rule impI) (rule set_DeleteFunc)
      have 4: "\<not> content_Equal d root \<longrightarrow> ?kept = []" using True by (intro impI) (erule notE)
      show ?thesis
        by (rule exI [of _ "?kept"]) (intro conjI 1 2 3 4)
    next
      case False
      with b assms(6) have 1: "?f d = Inr (descs @ [])" by (simp add: callFunc_def)
      have 2: "\<forall>r\<in>set ([]::descriptor list). \<not> content_Equal r root" by simp
      have 3: "content_Equal d root \<longrightarrow>
                 set ([]::descriptor list) = {r \<in> set found. \<not> content_Equal r root}"
        using False by (intro impI) (erule notE)
      have 4: "\<not> content_Equal d root \<longrightarrow> ([]::descriptor list) = []" by simp
      show ?thesis
        by (rule exI [of _ "[]"]) (intro conjI 1 2 3 4)
    qed
  qed
  with p g show ?thesis by blast
qed

theorem self_reference_exclusion_witness:
  "\<exists>opts' f appended. prepareCopyOption exampleEngine exampleRoot exampleOptions = (opts', None) \<and>
      FindPredecessors (ExtendedCopyGraphOptions opts') = Some f \<and>
      f exampleRoot = Inr appended \<and> set appended = {exampleReferrerD} \<and>
      content_Equal exampleRootAnnotated exampleRoot"
proof -
  have h1: "MediaType exampleRoot = MediaTypeImageIndex \<or> MediaType exampleRoot = MediaTypeManifestList"
    by (simp add: exampleRoot_def)
  have h2: "FetchAll exampleEngine exampleRoot = Inr ''index''"
    by (simp add: exampleEngine_def)
  have h3: "UnmarshalIndex exampleEngine ''index'' = Inr \<lparr>Manifests = [exampleChildB, exampleChildC]\<rparr>"
    by (simp add: exampleEngine_def)
  have h4: "Manifests \<lparr>Manifests = [exampleChildB, exampleChildC]\<rparr> \<noteq> []" by simp
  have h5: "GraphFindPredecessors exampleEngine (Manifests \<lparr>Manifests = [exampleChildB, exampleChildC]\<rparr>)
              exampleOptions = Inr [exampleRootAnnotated, exampleReferrerD]"
    by (simp add: exampleEngine_def)
  have h7: "FindPredecessors (ExtendedCopyGraphOptions exampleOptions) = Some (\<lambda>desc. Inr [])"
    by (simp add: exampleOptions_def)
  have eq: "content_Equal exampleRoot exampleRoot" "content_Equal exampleRootAnnotated exampleRoot"
    "\<not> content_Equal exampleReferrerD exampleRoot"
    by (simp_all add: content_Equal_def exampleRootAnnotated_def exampleRoot_def
        exampleReferrerD_def exampleChildB_def)
  have "{r \<in> set [exampleRootAnnotated, exampleReferrerD]. \<not> content_Equal r exampleRoot} =
     set (filter (\<lambda>r. \<not> content_Equal r exampleRoot) [exampleRootAnnotated, exampleReferrerD])"
    by (simp only: set_filter)
  also have "\<dots> = {exampleReferrerD}" by (simp add: eq)
  finally have kept: "{r \<in> set [exampleRootAnnotated, exampleReferrerD].
      \<not> content_Equal r exampleRoot} = {exampleReferrerD}" .
  from self_reference_exclusion [OF h1 h2 h3 h4 h5 h7]
  obtain opts' f where p: "prepareCopyOption exampleEngine exampleRoot exampleOptions = (opts', None)"
    and g: "FindPredecessors (ExtendedCopyGraphOptions opts') = Some f"
    and a: "\<forall>d descs. (Inr [] :: error + descriptor list) = Inr descs \<longrightarrow>
              (\<exists>appended. f d = Inr (descs @ appended) \<and>
                 (\<forall>r\<in>set appended. \<not> content_Equal r exampleRoot) \<and>
                 (content_Equal d exampleRoot \<longrightarrow>
                    set appended = {r \<in> set [exampleRootAnnotated, exampleReferrerD].
                                     \<not> content_Equal r exampleRoot}) \<and>
                 (\<not> content_Equal d exampleRoot \<longrightarrow> appended = []))"
    by (elim exE conjE)
  note a2 = a [THEN spec [where x = exampleRoot], THEN spec [where x = "[] :: descriptor list"],
      THEN mp, OF refl]
  from a2
  obtain appended where f1: "f exampleRoot = Inr ([] @ appended)"
    and s: "content_Equal exampleRoot exampleRoot \<longrightarrow>
       set appended = {r \<in> set [exampleRootAnnotated, exampleReferrerD]. \<not> content_Equal r exampleRoot}"
    by (elim exE conjE)
  from s eq(1) have "set appended = {r \<in> set [exampleRootAnnotated, exampleReferrerD].
      \<not> content_Equal r exampleRoot}" by (rule mp)
  then have s': "set appended = {exampleReferrerD}" using kept by (rule trans)
  from f1 have f2: "f exampleRoot = Inr appended" by simp
  show ?thesis
    by (rule exI [of _ opts'], rule exI [of _ f], rule exI [of _ appended])
       (intro conjI p g f2 s' eq(2))
qed

section \<open>Claims about the copy command\<close>

lemma prepareCopyOption_CopyGraphOptions:
  "CopyGraphOptions (ExtendedCopyGraphOptions (fst (prepareCopyOption eng root opts))) =
     CopyGraphOptions (ExtendedCopyGraphOptions opts)"
  by (simp add: prepareCopyOption_def Let_def split: sum.splits)

lemma recursiveCopy_calls:
  "c \<in> set (snd (recursiveCopy eng dstRef root opts)) \<Longrightarrow>
     callGraphOptions c = CopyGraphOptions (ExtendedCopyGraphOptions opts)"
proof (cases "prepareCopyOption eng root opts")
  case (Pair opts' err)
  assume c: "c \<in> set (snd (recursiveCopy eng dstRef root opts))"
  have g: "CopyGraphOptions (ExtendedCopyGraphOptions opts') =
           CopyGraphOptions (ExtendedCopyGraphOptions opts)"
    using prepareCopyOption_CopyGraphOptions [of eng root opts] Pair by simp
  show ?thesis
  proof (cases err)
    case None
    with Pair c g show ?thesis
      by (auto simp: recursiveCopy_def split: if_splits)
  next
    case (Some e)
    with Pair c show ?thesis by (simp add: recursiveCopy_def)
  qed
qed

lemma recursiveCopy_prepare_error:
  "prepareCopyOption eng root opts0 = (opts, Some err) \<Longrightarrow>
     recursiveCopy eng dstRef root opts0 = (Some err, [])"
  by (simp add: recursiveCopy_def)

text \<open>
  C5 (tagging in a recursive copy).  Once the options are prepared for the resolved root,
  \<^verbatim>\<open>recursiveCopy\<close> sends the engine exactly one request.  When the destination
  reference is empty or is the root's digest string, the request is an extended graph copy
  of the root, which tags nothing.  For every other destination reference it is an extended
  copy whose source reference is the root's digest string and whose destination reference,
  the tag, is the one given.  The error returned is the engine's.
\<close>

theorem recursive_copy_tagging:
  assumes "prepareCopyOption eng root opts0 = (opts, None)"
  shows "(dstRef = [] \<or> dstRef = Digest root \<longrightarrow>
            recursiveCopy eng dstRef root opts0 =
              (ExtendedCopyGraph eng root (ExtendedCopyGraphOptions opts),
               [CallExtendedCopyGraph root (ExtendedCopyGraphOptions opts)])) \<and>
         (dstRef \<noteq> [] \<and> dstRef \<noteq> Digest root \<longrightarrow>
            recursiveCopy eng dstRef root opts0 =
              (ExtendedCopy eng (Digest root) dstRef opts,
               [CallExtendedCopy (Digest root) dstRef opts]))"
  using assms by (simp add: recursiveCopy_def)

lemma doCopy_tracked_calls:
  "c \<in> set (snd (doCopy_tracked eng opts opts0)) \<Longrightarrow>
     MountFrom (callGraphOptions c) = MountFrom (CopyGraphOptions (ExtendedCopyGraphOptions opts0))"
proof -
  assume c: "c \<in> set (snd (doCopy_tracked eng opts opts0))"
  let ?g0 = "ExtendedCopyGraphOptions opts0"
  let ?x = "\<lparr>ExtendedCopyGraphOptions =
             ?g0\<lparr>CopyGraphOptions := (CopyGraphOptions ?g0)
                  \<lparr>OnCopySkipped := Some HandlerOnCopySkipped, PreCopy := Some HandlerPreCopy,
                   PostCopy := Some HandlerPostCopy, OnMounted := Some HandlerOnMounted\<rparr>\<rparr>\<rparr>"
  have m: "MountFrom (CopyGraphOptions (ExtendedCopyGraphOptions ?x)) =
           MountFrom (CopyGraphOptions ?g0)" by simp
  show ?thesis
  proof (cases "recursive opts")
    case True
    show ?thesis
    proof (cases "Resolve eng (From_Reference opts) (Platform opts)")
      case (Inl e)
      with True c show ?thesis by (simp add: doCopy_tracked_def Let_def)
    next
      case (Inr desc)
      with True c have "c \<in> set (snd (recursiveCopy eng (To_Reference opts) desc ?x))"
        by (simp add: doCopy_tracked_def Let_def split: prod.splits)
      then have "callGraphOptions c = CopyGraphOptions (ExtendedCopyGraphOptions ?x)"
        by (rule recursiveCopy_calls)
      with m show ?thesis by simp
    qed
  next
    case False
    with c show ?thesis
      by (auto simp: doCopy_tracked_def Let_def split: if_splits sum.splits)
  qed
qed

lemma doCopy_options_MountFrom:
  "MountFrom (CopyGraphOptions (ExtendedCopyGraphOptions (doCopy_options eng src dst opts))) =
     (case (src, dst) of
        (RemoteRepository srcRepo, RemoteRepository dstRepo) \<Rightarrow>
          if Registry srcRepo = Registry dstRepo then Some (\<lambda>desc. Inr [Repository srcRepo])
          else None
      | _ \<Rightarrow> None)"
  by (simp add: doCopy_options_def DefaultExtendedCopyOptions_def DefaultCopyGraphOptions_def
      Let_def split: target.splits)

lemma doCopy_calls:
  "c \<in> set (snd (doCopy copyHandler eng src dst opts)) \<Longrightarrow>
     c \<in> set (snd (doCopy_tracked eng opts (doCopy_options eng src dst opts)))"
  by (auto simp: doCopy_def Let_def split: option.splits prod.splits)

text \<open>
  C6 (mount hint scope).  Every copy request \<^verbatim>\<open>doCopy\<close> sends to the engine carries
  a mount hint exactly when source and destination are both remote repositories with the
  same registry host; the hint is then the function that returns the source repository
  name.  With any other pair of targets the request carries no mount hint.
\<close>

theorem mount_hint_scope:
  "\<forall>c\<in>set (snd (doCopy copyHandler eng src dst opts)).
     MountFrom (callGraphOptions c) =
       (case (src, dst) of
          (RemoteRepository srcRepo, RemoteRepository dstRepo) \<Rightarrow>
            if Registry srcRepo = Registry dstRepo then Some (\<lambda>desc. Inr [Repository srcRepo])
            else None
        | _ \<Rightarrow> None)"
proof
  fix c
  assume "c \<in> set (snd (doCopy copyHandler eng src dst opts))"
  then have "c \<in> set (snd (doCopy_tracked eng opts (doCopy_options eng src dst opts)))"
    by (rule doCopy_calls)
  then have "MountFrom (callGraphOptions c) =
     MountFrom (CopyGraphOptions (ExtendedCopyGraphOptions (doCopy_options eng src dst opts)))"
    by (rule doCopy_tracked_calls)
  then show "MountFrom (callGraphOptions c) =
       (case (src, dst) of
          (RemoteRepository srcRepo, RemoteRepository dstRepo) \<Rightarrow>
            if Registry srcRepo = Registry dstRepo then Some (\<lambda>desc. Inr [Repository srcRepo])
            else None
        | _ \<Rightarrow> None)"
    by (simp only: doCopy_options_MountFrom)
qed


theorem recursive_copy_tagging_witness:
  "recursiveCopy exampleEngine [] exampleChildB exampleOptions =
     (None, [CallExtendedCopyGraph exampleChildB (ExtendedCopyGraphOptions exampleOptions)]) \<and>
   recursiveCopy exampleEngine ''sha256:bbb'' exampleChildB exampleOptions =
     (None, [CallExtendedCopyGraph exampleChildB (ExtendedCopyGraphOptions exampleOptions)]) \<and>
   recursiveCopy exampleEngine ''v1'' exampleChildB exampleOptions =
     (None, [CallExtendedCopy ''sha256:bbb'' ''v1'' exampleOptions])"
proof -
  have "MediaType exampleChildB \<noteq> MediaTypeImageIndex \<and>
        MediaType exampleChildB \<noteq> MediaTypeManifestList"
    using example_media_types by (simp add: exampleChildB_def)
  then have p: "prepareCopyOption exampleEngine exampleChildB exampleOptions = (exampleOptions, None)"
    by (rule prepareCopyOption_unchanged(1))
  have d: "Digest exampleChildB = ''sha256:bbb''" by (simp add: exampleChildB_def)
  have e: "ExtendedCopyGraph exampleEngine exampleChildB (ExtendedCopyGraphOptions exampleOptions) = None"
    "ExtendedCopy exampleEngine ''sha256:bbb'' ''v1'' exampleOptions = None"
    by (simp_all add: exampleEngine_def)
  have 1: "recursiveCopy exampleEngine [] exampleChildB exampleOptions =
     (None, [CallExtendedCopyGraph exampleChildB (ExtendedCopyGraphOptions exampleOptions)])"
    using conjunct1 [OF recursive_copy_tagging [OF p, of "[]"]] e by simp
  have 2: "recursiveCopy exampleEngine ''sha256:bbb'' exampleChildB exampleOptions =
     (None, [CallExtendedCopyGraph exampleChildB (ExtendedCopyGraphOptions exampleOptions)])"
    using conjunct1 [OF recursive_copy_tagging [OF p, of "''sha256:bbb''"]] d e by simp
  have 3: "recursiveCopy exampleEngine ''v1'' exampleChildB exampleOptions =
     (None, [CallExtendedCopy ''sha256:bbb'' ''v1'' exampleOptions])"
    using conjunct2 [OF recursive_copy_tagging [OF p, of "''v1''"]] d e by simp
  from 1 2 3 show ?thesis by simp
qed

lemma example_doCopy_calls:
  "snd (doCopy exampleTracker exampleEngine src dst exampleCopyOptions) =
     [CallCopy ''v1'' ''v1''
        \<lparr>CopyOptions_CopyGraphOptions =
           (CopyGraphOptions (ExtendedCopyGraphOptions
              (doCopy_options exampleEngine src dst exampleCopyOptions)))
             \<lparr>OnCopySkipped := Some HandlerOnCopySkipped, PreCopy := Some HandlerPreCopy,
              PostCopy := Some HandlerPostCopy, OnMounted := Some HandlerOnMounted\<rparr>,
         TargetPlatform = None\<rparr>]"
  by (simp add: doCopy_def doCopy_tracked_def exampleTracker_def exampleCopyOptions_def Let_def
      split: prod.splits)

theorem mount_hint_scope_witness:
  "(\<exists>c. snd (doCopy exampleTracker exampleEngine exampleSrc exampleDstSameHost exampleCopyOptions) = [c] \<and>
        MountFrom (callGraphOptions c) = Some (\<lambda>desc. Inr [''hello''])) \<and>
   (\<exists>c. snd (doCopy exampleTracker exampleEngine exampleSrc exampleDstOtherHost exampleCopyOptions) = [c] \<and>
        MountFrom (callGraphOptions c) = None) \<and>
   (\<exists>c. snd (doCopy exampleTracker exampleEngine exampleSrc (OtherTarget ''layout'') exampleCopyOptions) = [c] \<and>
        MountFrom (callGraphOptions c) = None)"
proof (intro conjI)
  obtain c where c: "snd (doCopy exampleTracker exampleEngine exampleSrc exampleDstSameHost exampleCopyOptions) = [c]"
    using example_doCopy_calls by blast
  then have "c \<in> set (snd (doCopy exampleTracker exampleEngine exampleSrc exampleDstSameHost exampleCopyOptions))"
    by simp
  with mount_hint_scope [of exampleTracker exampleEngine exampleSrc exampleDstSameHost exampleCopyOptions]
  have "MountFrom (callGraphOptions c) = Some (\<lambda>desc. Inr [''hello''])"
    by (simp add: exampleSrc_def exampleDstSameHost_def)
  with c show "\<exists>c. snd (doCopy exampleTracker exampleEngine exampleSrc exampleDstSameHost exampleCopyOptions) = [c] \<and>
        MountFrom (callGraphOptions c) = Some (\<lambda>desc. Inr [''hello''])" by blast
next
  obtain c where c: "snd (doCopy exampleTracker exampleEngine exampleSrc exampleDstOtherHost exampleCopyOptions) = [c]"
    using example_doCopy_calls by blast
  then have "c \<in> set (snd (doCopy exampleTracker exampleEngine exampleSrc exampleDstOtherHost exampleCopyOptions))"
    by simp
  with mount_hint_scope [of exampleTracker exampleEngine exampleSrc exampleDstOtherHost exampleCopyOptions]
  have "MountFrom (callGraphOptions c) = None"
    by (simp add: exampleSrc_def exampleDstOtherHost_def)
  with c show "\<exists>c. snd (doCopy exampleTracker exampleEngine exampleSrc exampleDstOtherHost exampleCopyOptions) = [c] \<and>
        MountFrom (callGraphOptions c) = None" by blast
next
  obtain c where c: "snd (doCopy exampleTracker exampleEngine exampleSrc (OtherTarget ''layout'') exampleCopyOptions) = [c]"
    using example_doCopy_calls by blast
  then have "c \<in> set (snd (doCopy exampleTracker exampleEngine exampleSrc (OtherTarget ''layout'') exampleCopyOptions))"
    by simp
  with mount_hint_scope [of exampleTracker exampleEngine exampleSrc "OtherTarget ''layout''" exampleCopyOptions]
  have "MountFrom (callGraphOptions c) = None"
    by (simp add: exampleSrc_def)
  with c show "\<exists>c. snd (doCopy exampleTracker exampleEngine exampleSrc (OtherTarget ''layout'') exampleCopyOptions) = [c] \<and>
        MountFrom (callGraphOptions c) = None" by blast
qed


section \<open>Claims about the backup command\<close>




text \<open>
  C4 (the temporary archive file on the exit paths).  In a backup of one tag into a tar
  output in which the archiving of the staged directory fails, \<^verbatim>\<open>runBackup\<close> returns
  the archiving error and the temporary archive file is still there: the deferred cleanup
  removes the temporary directory only, and \<^verbatim>\<open>prepareBackupOutput\<close> removes the
  temporary file on the failure of the rename and on no other failure.
\<close>

theorem temp_tar_left_behind:
  "fst (runBackup (exampleBackupEnv\<lparr>RegistryTags := Inr [''v1'']\<rparr>) exampleBackupOptions {}) =
     Some (TarArchiveFailed ''/tmp/oras-backup-1'' (External ''no space left on device'')) \<and>
   snd (snd (runBackup (exampleBackupEnv\<lparr>RegistryTags := Inr [''v1'']\<rparr>) exampleBackupOptions {})) =
     {''/tmp/oras-backup-2.tar''}"
  by (simp add: runBackup_def runBackup_from_def findTagsToBackup_def backupTagStep_def
      backupTag_def prepareBackupOutput_def exampleBackupEnv_def exampleBackupOptions_def
      exampleOutputEnv_def exampleEngine_def Let_def insert_Diff_if)

text \<open>
  The same for every environment: the temporary file stays when the archiving, the close,
  the absolute path or the creation of the output directory fails; it is moved by a
  successful rename and removed after a failed one when the removal succeeds.
\<close>

lemma prepareBackupOutput_leaks:
  assumes "outputFormat opts = outputFormatTar" and "OnTarExporting oe = None"
    and "CreateTemp oe = Inr tempTarPath"
    and "TarDirectory oe \<noteq> None \<or> CloseTempTar oe \<noteq> None \<or>
         (\<not> IsAbs oe \<and> (\<exists>e. Abs oe = Inl e)) \<or> MkdirAll oe \<noteq> None"
  shows "fst (prepareBackupOutput oe dstRoot opts files) \<noteq> None \<and>
         tempTarPath \<in> snd (prepareBackupOutput oe dstRoot opts files)"
  using assms
  by (auto simp: prepareBackupOutput_def Let_def split: option.splits sum.splits)

lemma prepareBackupOutput_moved:
  assumes "outputFormat opts = outputFormatTar" and "OnTarExporting oe = None"
    and "CreateTemp oe = Inr tempTarPath"
    and "TarDirectory oe = None" and "CloseTempTar oe = None"
    and "(if IsAbs oe then Inr (output opts) else Abs oe) = Inr absOutput"
    and "MkdirAll oe = None" and "absOutput \<noteq> tempTarPath"
  shows "Rename oe = None \<longrightarrow>
           tempTarPath \<notin> snd (prepareBackupOutput oe dstRoot opts files) \<and>
           absOutput \<in> snd (prepareBackupOutput oe dstRoot opts files)"
    and "Rename oe \<noteq> None \<and> Remove oe = None \<longrightarrow>
           tempTarPath \<notin> snd (prepareBackupOutput oe dstRoot opts files)"
  using assms
  by (auto simp: prepareBackupOutput_def Let_def split: option.splits sum.splits)

end
